theory Spec2Isabelle
  imports Complex_Main "HOL-Library.Multiset" "HOL-Library.AList"
begin

section \<open>JavaScript values used by the analytics servers\<close>

text \<open>
  Amounts arrive as decimal strings and are read with \<open>parseFloat\<close>. The embedding takes
  the decimal a string denotes as an exact rational: a \<open>number\<close> is a \<^typ>\<open>rat\<close>, and
  IEEE-754 rounding, \<open>NaN\<close> and the infinities of the JavaScript number type are outside
  the model. A division the source does not guard returns \<open>None\<close> where JavaScript
  yields \<open>NaN\<close> or \<open>Infinity\<close>.
\<close>

type_synonym number = rat

text \<open>
  \<open>x.toFixed(2)\<close>, read back as a number: the sign is split off, and the magnitude goes
  to the nearest multiple of 1/100, the larger one on a tie.
\<close>

definition toFixed2 :: "number \<Rightarrow> number" where
  "toFixed2 x =
     (if x < 0 then - (of_int \<lfloor>(- x) * 100 + 1 / 2\<rfloor> / 100)
      else of_int \<lfloor>x * 100 + 1 / 2\<rfloor> / 100)"

definition js_div :: "number \<Rightarrow> number \<Rightarrow> number option" where
  "js_div a b = (if b = 0 then None else Some (a / b))"

text \<open>
  A plain object used as a dictionary (\<open>Record<string, T>\<close>) is an association list in
  insertion order: assigning to a key that is present replaces its value in place, and a
  new key goes to the end, which is what \<^const>\<open>AList.update\<close> does. Reading a key is
  \<^const>\<open>map_of\<close>. Keys are taken not to collide with the members of \<open>Object.prototype\<close>
  and not to be canonical array indices (which JavaScript enumerates first).
\<close>

type_synonym 'v js_object = "(string \<times> 'v) list"

text \<open>\<open>!obj[k]\<close> for a dictionary of numbers: true when the key is absent or holds 0.\<close>

definition not_num :: "number option \<Rightarrow> bool" where
  "not_num v = (case v of None \<Rightarrow> True | Some x \<Rightarrow> x = 0)"

text \<open>\<open>if (!obj[k]) { obj[k] = 0; }\<close>\<close>

definition init_zero :: "number js_object \<Rightarrow> string \<Rightarrow> number js_object" where
  "init_zero obj k = (if not_num (map_of obj k) then AList.update k 0 obj else obj)"

text \<open>
  \<open>obj[k] += x\<close>. On an absent key JavaScript would store \<open>undefined + x\<close>, which is
  \<open>NaN\<close>; every use below follows \<^const>\<open>init_zero\<close>, so that branch is never taken.
\<close>

definition add_at :: "number js_object \<Rightarrow> string \<Rightarrow> number \<Rightarrow> number js_object" where
  "add_at obj k x =
     (case map_of obj k of Some v \<Rightarrow> AList.update k (v + x) obj | None \<Rightarrow> obj)"

section \<open>Shopify sales analytics (shopify.ts)\<close>

subsection \<open>Orders, pages and errors\<close>

record shopMoney =
  amount :: number
  currencyCode :: string

text \<open>
  A line item of an order; \<open>product\<close> is the pair of the product's id and title, or
  \<open>None\<close> when the line item has no product.
\<close>

record lineItem =
  title :: string
  quantity :: int
  originalTotalSet :: shopMoney
  product :: "(string \<times> string) option"

text \<open>
  An order node. \<open>createdAt\<close> is the time value of \<open>new Date(order.createdAt)\<close>, in
  milliseconds since 1970-01-01T00:00:00Z.
\<close>

record order =
  createdAt :: int
  totalPriceSet :: shopMoney
  totalDiscountsSet :: shopMoney
  totalShippingPriceSet :: shopMoney
  totalTaxSet :: shopMoney
  lineItems :: "lineItem list"

datatype error_code = InvalidRequest | InvalidParams | InternalError

datatype mcp_error = McpError error_code string

text \<open>The variables of one GraphQL request, and the page of orders it answers with.\<close>

record variables =
  query :: string
  first :: nat
  after :: "string option"

record orders_page =
  edges :: "order list"
  hasNextPage :: bool
  endCursor :: "string option"

text \<open>
  \<open>executeShopifyGraphQL\<close> with a configured client: a request either fails with an
  \<open>McpError\<close> or returns a page.
\<close>

type_synonym upstream = "variables \<Rightarrow> mcp_error + orders_page"

subsection \<open>get_sales_summary: the summary accumulation\<close>

record summary =
  totalOrders :: nat
  totalSales :: number
  averageOrderValue :: number
  totalDiscounts :: number
  totalShipping :: number
  totalTax :: number
  salesByCurrency :: "number js_object"
  salesByStatus :: "number js_object"

definition summary_init :: "order list \<Rightarrow> summary" where
  "summary_init allOrders =
     \<lparr>totalOrders = length allOrders, totalSales = 0, averageOrderValue = 0,
      totalDiscounts = 0, totalShipping = 0, totalTax = 0,
      salesByCurrency = [], salesByStatus = []\<rparr>"

text \<open>The body of \<open>allOrders.forEach\<close>.\<close>

definition summary_step :: "summary \<Rightarrow> order \<Rightarrow> summary" where
  "summary_step s ord =
     (let totalPrice = amount (totalPriceSet ord);
          cur = currencyCode (totalPriceSet ord);
          discounts = amount (totalDiscountsSet ord);
          shipping = amount (totalShippingPriceSet ord);
          tax = amount (totalTaxSet ord)
      in s\<lparr>totalSales := totalSales s + totalPrice,
            totalDiscounts := totalDiscounts s + discounts,
            totalShipping := totalShipping s + shipping,
            totalTax := totalTax s + tax,
            salesByCurrency := add_at (init_zero (salesByCurrency s) cur) cur totalPrice,
            salesByStatus :=
              add_at (init_zero (salesByStatus s) ''other'') ''other'' totalPrice\<rparr>)"

definition accumulate :: "order list \<Rightarrow> summary" where
  "accumulate allOrders = foldl summary_step (summary_init allOrders) allOrders"

text \<open>The summary after \<open>averageOrderValue\<close> has been set (before formatting).\<close>

definition sales_summary :: "order list \<Rightarrow> summary" where
  "sales_summary allOrders =
     (let s = accumulate allOrders
      in s\<lparr>averageOrderValue :=
             (if totalOrders s > 0 then totalSales s / of_nat (totalOrders s) else 0)\<rparr>)"

text \<open>
  \<open>formattedSummary\<close>: every amount through \<open>toFixed(2)\<close>. The source keeps the scalar
  fields as the strings \<open>toFixed\<close> returns; the model keeps the number they denote.
\<close>

definition formattedSummary :: "summary \<Rightarrow> summary" where
  "formattedSummary s =
     s\<lparr>totalSales := toFixed2 (totalSales s),
       averageOrderValue := toFixed2 (averageOrderValue s),
       totalDiscounts := toFixed2 (totalDiscounts s),
       totalShipping := toFixed2 (totalShipping s),
       totalTax := toFixed2 (totalTax s),
       salesByCurrency := map (\<lambda>(c, a). (c, toFixed2 a)) (salesByCurrency s),
       salesByStatus := map (\<lambda>(c, a). (c, toFixed2 a)) (salesByStatus s)\<rparr>"


text \<open>Quantities the statements below compare the accumulation with.\<close>

definition price :: "order \<Rightarrow> number" where
  "price ord = amount (totalPriceSet ord)"

definition currency :: "order \<Rightarrow> string" where
  "currency ord = currencyCode (totalPriceSet ord)"

definition currency_total :: "string \<Rightarrow> order list \<Rightarrow> number" where
  "currency_total c os = sum_list (map price (filter (\<lambda>ord. currency ord = c) os))"

definition num_or_zero :: "number option \<Rightarrow> number" where
  "num_or_zero v = (case v of None \<Rightarrow> 0 | Some x \<Rightarrow> x)"

subsection \<open>Facts about dictionaries of numbers\<close>

lemma map_of_bump:
  "map_of (add_at (init_zero obj k) k x) =
     (map_of obj)(k \<mapsto> num_or_zero (map_of obj k) + x)"
  by (auto simp: add_at_def init_zero_def not_num_def num_or_zero_def update_conv'
      split: option.splits)





subsection \<open>Closed forms of the accumulation\<close>

lemma step_fields:
  "totalOrders (summary_step s ord) = totalOrders s"
  "totalSales (summary_step s ord) = totalSales s + price ord"
  "averageOrderValue (summary_step s ord) = averageOrderValue s"
  "totalDiscounts (summary_step s ord) = totalDiscounts s + amount (totalDiscountsSet ord)"
  "totalShipping (summary_step s ord) =
     totalShipping s + amount (totalShippingPriceSet ord)"
  "totalTax (summary_step s ord) = totalTax s + amount (totalTaxSet ord)"
  "salesByCurrency (summary_step s ord) =
     add_at (init_zero (salesByCurrency s) (currency ord)) (currency ord) (price ord)"
  "salesByStatus (summary_step s ord) =
     add_at (init_zero (salesByStatus s) ''other'') ''other'' (price ord)"
  by (simp_all add: summary_step_def price_def currency_def Let_def)

lemma foldl_totalOrders: "totalOrders (foldl summary_step s os) = totalOrders s"
  by (induction os arbitrary: s) (simp_all add: step_fields)

lemma foldl_averageOrderValue:
  "averageOrderValue (foldl summary_step s os) = averageOrderValue s"
  by (induction os arbitrary: s) (simp_all add: step_fields)

lemma foldl_totalSales:
  "totalSales (foldl summary_step s os) = totalSales s + sum_list (map price os)"
  by (induction os arbitrary: s) (simp_all add: step_fields)




lemma currency_total_absent:
  "c \<notin> currency ` set os \<Longrightarrow> currency_total c os = 0"
  by (induction os) (auto simp: currency_total_def)

lemma currency_total_Cons:
  "currency_total c (ord # os) =
     (if currency ord = c then price ord else 0) + currency_total c os"
  by (simp add: currency_total_def)

lemma foldl_salesByCurrency:
  "map_of (salesByCurrency (foldl summary_step s os)) c =
     (if c \<in> currency ` set os
      then Some (num_or_zero (map_of (salesByCurrency s) c) + currency_total c os)
      else map_of (salesByCurrency s) c)"
proof (induction os arbitrary: s)
  case Nil
  then show ?case by simp
next
  case (Cons ord os)
  show ?case
    by (auto simp: Cons.IH step_fields map_of_bump currency_total_Cons num_or_zero_def
        currency_total_absent)
qed




lemma accumulate_salesByCurrency:
  "map_of (salesByCurrency (accumulate os)) c =
     (if c \<in> currency ` set os then Some (currency_total c os) else None)"
  by (simp add: accumulate_def foldl_salesByCurrency summary_init_def num_or_zero_def)

lemma accumulate_totalSales: "totalSales (accumulate os) = sum_list (map price os)"
  by (simp add: accumulate_def foldl_totalSales summary_init_def)

lemma accumulate_totalOrders: "totalOrders (accumulate os) = length os"
  by (simp add: accumulate_def foldl_totalOrders summary_init_def)



lemma sales_summary_fields:
  "totalOrders (sales_summary os) = length os"
  "totalSales (sales_summary os) = sum_list (map price os)"
  "salesByCurrency (sales_summary os) = salesByCurrency (accumulate os)"
  "salesByStatus (sales_summary os) = salesByStatus (accumulate os)"
  "averageOrderValue (sales_summary os) =
     (if length os > 0 then sum_list (map price os) / of_nat (length os) else 0)"
  by (simp_all add: sales_summary_def Let_def accumulate_totalSales accumulate_totalOrders)

subsection \<open>Two orders in two currencies\<close>

definition money :: "number \<Rightarrow> string \<Rightarrow> shopMoney" where
  "money a c = \<lparr>amount = a, currencyCode = c\<rparr>"

text \<open>An order of 100 USD and one of 1000 JPY, both created on 2024-05-16T00:00:00Z.\<close>

definition usd_order :: order where
  "usd_order =
     \<lparr>createdAt = 1715817600000, totalPriceSet = money 100 ''USD'',
      totalDiscountsSet = money 0 ''USD'', totalShippingPriceSet = money 0 ''USD'',
      totalTaxSet = money 0 ''USD'', lineItems = []\<rparr>"

definition jpy_order :: order where
  "jpy_order =
     \<lparr>createdAt = 1715817600000, totalPriceSet = money 1000 ''JPY'',
      totalDiscountsSet = money 0 ''JPY'', totalShippingPriceSet = money 0 ''JPY'',
      totalTaxSet = money 0 ''JPY'', lineItems = []\<rparr>"

lemmas summary_eval =
  sales_summary_def accumulate_def summary_init_def summary_step_def formattedSummary_def
  init_zero_def add_at_def not_num_def money_def usd_order_def jpy_order_def Let_def
  price_def currency_def currency_total_def

text \<open>
  C2, as stated, fails: with one order of 100 USD and one of 1000 JPY and no currency
  filter (the accumulation never looks at the filter), \<open>totalSales\<close> is reported as the
  single number 1100, the sum of the two amounts across both currencies, before and after
  formatting.
\<close>

theorem mixed_currency_total_counterexample:
  "currency usd_order = ''USD'' \<and> currency jpy_order = ''JPY''
   \<and> totalSales (sales_summary [usd_order, jpy_order]) = price usd_order + price jpy_order
   \<and> totalSales (formattedSummary (sales_summary [usd_order, jpy_order])) = 1100"
  by (simp add: summary_eval toFixed2_def floor_eq_iff)

text \<open>
  C2, amended: \<open>salesByCurrency\<close> carries each currency's amount independently: a
  currency that occurs among the orders maps to the sum of the total prices of the orders
  in that currency, and no other key is present. It stands alongside the top-level
  \<open>totalSales\<close>, which is the sum of the total prices of all orders whatever their
  currency.
\<close>

theorem salesByCurrency_breakdown:
  "map_of (salesByCurrency (sales_summary os)) c =
     (if c \<in> currency ` set os then Some (currency_total c os) else None)
   \<and> totalSales (sales_summary os) = sum_list (map price os)"
  by (simp add: sales_summary_fields accumulate_salesByCurrency)

theorem salesByCurrency_breakdown_witness:
  "map_of (salesByCurrency (sales_summary [usd_order, jpy_order])) ''USD'' = Some 100
   \<and> map_of (salesByCurrency (sales_summary [usd_order, jpy_order])) ''JPY'' = Some 1000
   \<and> map_of (salesByCurrency (sales_summary [usd_order, jpy_order])) ''EUR'' = None
   \<and> totalSales (sales_summary [usd_order, jpy_order]) = 1100"
  using salesByCurrency_breakdown [of "[usd_order, jpy_order]" "''USD''"]
    salesByCurrency_breakdown [of "[usd_order, jpy_order]" "''JPY''"]
    salesByCurrency_breakdown [of "[usd_order, jpy_order]" "''EUR''"]
  by (simp add: currency_def currency_total_def price_def usd_order_def jpy_order_def
      money_def)




section \<open>The JavaScript Date operations the trend grouping calls\<close>

text \<open>
  A \<open>Date\<close> is its time value, an integer number of milliseconds since
  1970-01-01T00:00:00Z. The getters and setters without \<open>UTC\<close> in their name work on
  local time, which is the time value plus the local time zone adjustment \<open>tza\<close> of the
  process (in milliseconds; a zone without daylight saving is a constant, +32400000 for
  Asia/Tokyo, 0 for UTC). \<open>toISOString\<close> always prints UTC.
\<close>

definition msPerDay :: int where
  "msPerDay = 86400000"

definition Day :: "int \<Rightarrow> int" where
  "Day t = t div msPerDay"

definition TimeWithinDay :: "int \<Rightarrow> int" where
  "TimeWithinDay t = t mod msPerDay"

text \<open>0 is Sunday; day 0 (1970-01-01) was a Thursday.\<close>

definition WeekDay :: "int \<Rightarrow> int" where
  "WeekDay t = (Day t + 4) mod 7"

text \<open>
  Year, month (1 to 12) and day of the month of a day number in the proleptic Gregorian
  calendar, counted in 400-year eras that start on 1 March.
\<close>

definition civil_from_days :: "int \<Rightarrow> int \<times> int \<times> int" where
  "civil_from_days z0 =
     (let z = z0 + 719468;
          era = z div 146097;
          doe = z - era * 146097;
          yoe = (doe - doe div 1460 + doe div 36524 - doe div 146096) div 365;
          doy = doe - (365 * yoe + yoe div 4 - yoe div 100);
          mp = (5 * doy + 2) div 153;
          d = doy - (153 * mp + 2) div 5 + 1;
          m = (if mp < 10 then mp + 3 else mp - 9);
          y = yoe + era * 400 + (if m \<le> 2 then 1 else 0)
      in (y, m, d))"

text \<open>The day number of a year, a month (1 to 12) and a day of the month.\<close>

definition days_from_civil :: "int \<Rightarrow> int \<Rightarrow> int \<Rightarrow> int" where
  "days_from_civil y0 m d =
     (let y = (if m \<le> 2 then y0 - 1 else y0);
          era = y div 400;
          yoe = y - era * 400;
          doy = (153 * (if m > 2 then m - 3 else m + 9) + 2) div 5 + d - 1;
          doe = yoe * 365 + yoe div 4 - yoe div 100 + doy
      in era * 146097 + doe - 719468)"

definition YearFromTime :: "int \<Rightarrow> int" where
  "YearFromTime t = fst (civil_from_days (Day t))"

text \<open>Months count from 0, as in JavaScript.\<close>

definition MonthFromTime :: "int \<Rightarrow> int" where
  "MonthFromTime t = fst (snd (civil_from_days (Day t))) - 1"

definition DateFromTime :: "int \<Rightarrow> int" where
  "DateFromTime t = snd (snd (civil_from_days (Day t)))"

text \<open>
  \<open>MakeDay\<close>: the day number of the first of the month, plus the day of the month less
  one; a month outside 0 to 11 and a day of the month outside the month carry over.
\<close>

definition MakeDay :: "int \<Rightarrow> int \<Rightarrow> int \<Rightarrow> int" where
  "MakeDay year month dt = days_from_civil (year + month div 12) (month mod 12 + 1) 1 + dt - 1"

definition MakeDate :: "int \<Rightarrow> int \<Rightarrow> int" where
  "MakeDate day time = day * msPerDay + time"

definition getDate :: "int \<Rightarrow> int \<Rightarrow> int" where
  "getDate tza t = DateFromTime (t + tza)"

definition getDay :: "int \<Rightarrow> int \<Rightarrow> int" where
  "getDay tza t = WeekDay (t + tza)"

definition getFullYear :: "int \<Rightarrow> int \<Rightarrow> int" where
  "getFullYear tza t = YearFromTime (t + tza)"

definition getMonth :: "int \<Rightarrow> int \<Rightarrow> int" where
  "getMonth tza t = MonthFromTime (t + tza)"

text \<open>
  \<open>d.setDate(dt)\<close>: the local year, month and time of day are kept and the day of the
  month is replaced; the result is the new time value.
\<close>

definition setDate :: "int \<Rightarrow> int \<Rightarrow> int \<Rightarrow> int" where
  "setDate tza t dt =
     (let lt = t + tza;
          newDate = MakeDate (MakeDay (YearFromTime lt) (MonthFromTime lt) dt) (TimeWithinDay lt)
      in newDate - tza)"

subsection \<open>Printing\<close>

fun digits :: "nat \<Rightarrow> string" where
  "digits n =
     (if n < 10 then [''0123456789'' ! n]
      else digits (n div 10) @ [''0123456789'' ! (n mod 10)])"

declare digits.simps [simp del]

text \<open>\<open>String(i)\<close> for an integer.\<close>

definition toString :: "int \<Rightarrow> string" where
  "toString i = (if i < 0 then ''-'' @ digits (nat (- i)) else digits (nat i))"

definition padStart :: "nat \<Rightarrow> char \<Rightarrow> string \<Rightarrow> string" where
  "padStart n c str = replicate (n - length str) c @ str"

text \<open>
  \<open>toISOString\<close>: the UTC fields; a year outside 0 to 9999 is printed with a sign and six
  digits.
\<close>

definition toISOString :: "int \<Rightarrow> string" where
  "toISOString t =
     (let y = YearFromTime t;
          tod = TimeWithinDay t;
          year = (if 0 \<le> y \<and> y \<le> 9999 then padStart 4 CHR ''0'' (toString y)
                  else (if y < 0 then ''-'' else ''+'') @ padStart 6 CHR ''0'' (toString \<bar>y\<bar>))
      in year @ ''-'' @ padStart 2 CHR ''0'' (toString (MonthFromTime t + 1))
           @ ''-'' @ padStart 2 CHR ''0'' (toString (DateFromTime t))
           @ ''T'' @ padStart 2 CHR ''0'' (toString (tod div 3600000))
           @ '':'' @ padStart 2 CHR ''0'' (toString (tod div 60000 mod 60))
           @ '':'' @ padStart 2 CHR ''0'' (toString (tod div 1000 mod 60))
           @ ''.'' @ padStart 3 CHR ''0'' (toString (tod mod 1000)) @ ''Z'')"

text \<open>\<open>str.split("T")[0]\<close>: the part before the first \<open>T\<close>.\<close>

definition before_T :: "string \<Rightarrow> string" where
  "before_T str = takeWhile (\<lambda>c. c \<noteq> CHR ''T'') str"

subsection \<open>get_sales_trends: the period key\<close>

text \<open>
  The \<open>switch (interval)\<close> of the grouping loop, for an order created at time value
  \<open>t\<close>, in a process whose local time zone adjustment is \<open>tza\<close>.
\<close>

definition periodKey :: "int \<Rightarrow> string \<Rightarrow> int \<Rightarrow> string" where
  "periodKey tza interval t =
     (if interval = ''daily'' then before_T (toISOString t)
      else if interval = ''weekly'' then
        (let weekStart = setDate tza t (getDate tza t - getDay tza t)
         in before_T (toISOString weekStart))
      else if interval = ''monthly'' then
        toString (getFullYear tza t) @ ''-''
          @ padStart 2 CHR ''0'' (toString (getMonth tza t + 1))
      else before_T (toISOString t))"

subsection \<open>The calendar conversions are inverse to each other\<close>

lemma div_eqI:
  fixes x k b :: int
  assumes "b * k \<le> x" and "x < b * k + b"
  shows "x div b = k"
proof -
  have b: "0 < b"
    using assms by linarith
  have "x div b = (x - b * k) div b + k"
    using b by (metis add.commute diff_add_cancel div_mult_self2 less_irrefl mult.commute)
  moreover have "(x - b * k) div b = 0"
    using assms b by (simp add: div_pos_pos_trivial)
  ultimately show ?thesis by simp
qed

lemma era_year_day:
  fixes doe :: int
  assumes lo: "0 \<le> doe" and hi: "doe \<le> 146096"
  defines "yoe \<equiv> (doe - doe div 1460 + doe div 36524 - doe div 146096) div 365"
  defines "doy \<equiv> doe - (365 * yoe + yoe div 4 - yoe div 100)"
  shows "0 \<le> yoe \<and> yoe \<le> 399 \<and> 0 \<le> doy \<and> doy \<le> 365"
proof (cases "doe = 146096")
  case True
  then show ?thesis
    by (simp add: yoe_def doy_def)
next
  case False
  define c where "c = doe div 36524"
  define r1 where "r1 = doe mod 36524"
  define q where "q = r1 div 1461"
  define r2 where "r2 = r1 mod 1461"
  define a where "a = r2 div 365"
  define r3 where "r3 = r2 mod 365"
  have d1: "doe = 36524 * c + r1" "0 \<le> r1" "r1 < 36524"
    by (simp_all add: c_def r1_def)
  have d2: "r1 = 1461 * q + r2" "0 \<le> r2" "r2 < 1461"
    by (simp_all add: q_def r2_def)
  have d3: "r2 = 365 * a + r3" "0 \<le> r3" "r3 < 365"
    by (simp_all add: a_def r3_def)
  have cb: "0 \<le> c" "c \<le> 3"
    using d1 lo hi False by linarith+
  have qb: "0 \<le> q" "q \<le> 24"
    using d1 d2 by linarith+
  have ab: "0 \<le> a" "a \<le> 4"
    using d2 d3 by linarith+
  define a' where "a' = (if a = 4 then 3 else a)"
  define rho where "rho = 24 * c + q + 365 * a + r3"
  define dl :: int where "dl = (if 1460 \<le> rho then 1 else 0)"
  have doe: "doe = 1460 * (25 * c + q) + rho"
    using d1 d2 d3 by (simp add: rho_def)
  have rb: "0 \<le> rho" "rho < 2920"
    using cb qb ab d3 d2 by (simp_all add: rho_def)
  have e: "doe div 1460 = 25 * c + q + dl"
    by (rule div_eqI) (use doe rb in \<open>auto simp: dl_def\<close>)
  have g: "doe div 146096 = 0"
    using lo hi False by simp
  have N: "doe - doe div 1460 + doe div 36524 - doe div 146096 =
      365 * (100 * c + 4 * q + a') + (365 * (a - a') + r3 - dl)"
    unfolding e g using d1 d2 d3 by (simp add: c_def [symmetric]) 
  have rem: "0 \<le> 365 * (a - a') + r3 - dl" "365 * (a - a') + r3 - dl < 365"
    using ab d3 d2 cb qb by (auto simp: a'_def dl_def rho_def)
  have y: "yoe = 100 * c + 4 * q + a'"
    unfolding yoe_def N by (rule div_eqI) (use rem in auto)
  have a'b: "0 \<le> a'" "a' \<le> 3"
    using ab by (auto simp: a'_def)
  have y4: "yoe div 4 = 25 * c + q"
    unfolding y by (rule div_eqI) (use a'b in auto)
  have y100: "yoe div 100 = c"
    unfolding y by (rule div_eqI) (use a'b qb in auto)
  have dy: "doy = 365 * (a - a') + r3"
    unfolding doy_def y4 y100 unfolding y using d1 d2 d3 by simp
  have "0 \<le> doy" "doy \<le> 365"
    unfolding dy using ab d3 d2 by (auto simp: a'_def)
  moreover have "0 \<le> yoe" "yoe \<le> 399"
    unfolding y using cb qb a'b by linarith+
  ultimately show ?thesis by simp
qed


lemma days_from_civil_inverse:
  "days_from_civil (fst (civil_from_days n)) (fst (snd (civil_from_days n))) dt =
     n - snd (snd (civil_from_days n)) + dt"
proof -
  define z where "z = n + 719468"
  define era where "era = z div 146097"
  define doe where "doe = z - era * 146097"
  define yoe where "yoe = (doe - doe div 1460 + doe div 36524 - doe div 146096) div 365"
  define doy where "doy = doe - (365 * yoe + yoe div 4 - yoe div 100)"
  define mp where "mp = (5 * doy + 2) div 153"
  define d where "d = doy - (153 * mp + 2) div 5 + 1"
  define m where "m = (if mp < 10 then mp + 3 else mp - 9)"
  define y where "y = yoe + era * 400 + (if m \<le> 2 then 1 else 0)"
  have cv: "civil_from_days n = (y, m, d)"
    unfolding civil_from_days_def Let_def y_def m_def d_def mp_def doy_def yoe_def doe_def
      era_def z_def
    by (rule refl)
  have db: "0 \<le> doe" "doe \<le> 146096"
    unfolding doe_def era_def by linarith+
  have b: "0 \<le> yoe \<and> yoe \<le> 399 \<and> 0 \<le> doy \<and> doy \<le> 365"
    unfolding yoe_def doy_def by (rule era_year_day [OF db])
  have mpb: "0 \<le> mp" "mp \<le> 11"
    using b by (simp_all add: mp_def) linarith+
  have y': "(if m \<le> 2 then y - 1 else y) = yoe + era * 400"
    by (simp add: y_def)
  have e': "(yoe + era * 400) div 400 = era"
    using b by (intro div_eqI) auto
  have mp': "(if m > 2 then m - 3 else m + 9) = mp"
    using mpb by (auto simp: m_def)
  have "days_from_civil y m dt = era * 146097 + doe - 719468 - d + dt"
    unfolding days_from_civil_def Let_def y' e' mp'
    by (simp add: d_def doy_def)
  also have "\<dots> = n - d + dt"
    by (simp add: doe_def z_def)
  finally show ?thesis
    by (simp add: cv)
qed


lemma month_range:
  "1 \<le> fst (snd (civil_from_days n)) \<and> fst (snd (civil_from_days n)) \<le> 12"
proof -
  define z where "z = n + 719468"
  define era where "era = z div 146097"
  define doe where "doe = z - era * 146097"
  define yoe where "yoe = (doe - doe div 1460 + doe div 36524 - doe div 146096) div 365"
  define doy where "doy = doe - (365 * yoe + yoe div 4 - yoe div 100)"
  define mp where "mp = (5 * doy + 2) div 153"
  define m where "m = (if mp < 10 then mp + 3 else mp - 9)"
  have cv: "fst (snd (civil_from_days n)) = m"
    unfolding civil_from_days_def Let_def m_def mp_def doy_def yoe_def doe_def era_def z_def
    by (simp only: fst_conv snd_conv)
  have db: "0 \<le> doe" "doe \<le> 146096"
    unfolding doe_def era_def by linarith+
  have b: "0 \<le> yoe \<and> yoe \<le> 399 \<and> 0 \<le> doy \<and> doy \<le> 365"
    unfolding yoe_def doy_def by (rule era_year_day [OF db])
  have mpb: "0 \<le> mp" "mp \<le> 11"
    using b by (simp_all add: mp_def) linarith+
  then show ?thesis
    unfolding cv by (auto simp: m_def)
qed

lemma MakeDay_same_month:
  "MakeDay (YearFromTime t) (MonthFromTime t) dt = Day t - DateFromTime t + dt"
proof -
  define m where "m = fst (snd (civil_from_days (Day t)))"
  have mb: "1 \<le> m" "m \<le> 12"
    using month_range [of "Day t"] by (simp_all add: m_def)
  have k: "(m - 1) div 12 = 0" "(m - 1) mod 12 + 1 = m"
    using mb by simp_all
  have inv: "days_from_civil (fst (civil_from_days (Day t))) m 1 =
      Day t - snd (snd (civil_from_days (Day t))) + 1"
    unfolding m_def by (rule days_from_civil_inverse)
  show ?thesis
    unfolding MakeDay_def YearFromTime_def MonthFromTime_def DateFromTime_def
      m_def [symmetric] k
    using inv by simp
qed

lemma Day_TimeWithinDay: "Day t * msPerDay + TimeWithinDay t = t"
  by (simp add: Day_def TimeWithinDay_def)

lemma weekStart_utc:
  "setDate 0 t (getDate 0 t - getDay 0 t) = t - WeekDay t * msPerDay"
proof -
  have "setDate 0 t (getDate 0 t - getDay 0 t) =
      (Day t - WeekDay t) * msPerDay + TimeWithinDay t"
    by (simp add: setDate_def getDate_def getDay_def MakeDate_def MakeDay_same_month Let_def)
  also have "\<dots> = Day t * msPerDay + TimeWithinDay t - WeekDay t * msPerDay"
    by (simp add: algebra_simps)
  finally show ?thesis
    by (simp only: Day_TimeWithinDay)
qed

lemma WeekDay_range: "0 \<le> WeekDay t \<and> WeekDay t \<le> 6"
  by (simp add: WeekDay_def)

lemma Day_week_start: "Day (t - WeekDay t * msPerDay) = Day t - WeekDay t"
  by (simp add: Day_def msPerDay_def)

lemma WeekDay_week_start: "WeekDay (t - WeekDay t * msPerDay) = 0"
proof -
  have "WeekDay (t - WeekDay t * msPerDay) = (Day t - WeekDay t + 4) mod 7"
    unfolding WeekDay_def [of "t - WeekDay t * msPerDay"] Day_week_start by (rule refl)
  also have "\<dots> = 0"
    unfolding WeekDay_def by presburger
  finally show ?thesis .
qed

lemma periodKey_weekly_utc:
  "periodKey 0 ''weekly'' t = periodKey 0 ''daily'' (t - WeekDay t * msPerDay)"
  by (simp add: periodKey_def weekStart_utc Let_def)


subsection \<open>The keys when local time is UTC\<close>

text \<open>The UTC calendar date of a time value, as \<open>toISOString\<close> prints it.\<close>

definition utc_date :: "int \<Rightarrow> string" where
  "utc_date t =
     (let y = YearFromTime t
      in (if 0 \<le> y \<and> y \<le> 9999 then padStart 4 CHR ''0'' (toString y)
          else (if y < 0 then ''-'' else ''+'') @ padStart 6 CHR ''0'' (toString \<bar>y\<bar>))
         @ ''-'' @ padStart 2 CHR ''0'' (toString (MonthFromTime t + 1))
         @ ''-'' @ padStart 2 CHR ''0'' (toString (DateFromTime t)))"

lemma digit_no_T: "k < 10 \<Longrightarrow> ''0123456789'' ! k \<noteq> CHR ''T''"
proof -
  assume "k < 10"
  then have "''0123456789'' ! k \<in> set ''0123456789''"
    by (intro nth_mem) simp
  then show ?thesis
    by auto
qed

lemma digits_no_T: "CHR ''T'' \<notin> set (digits n)"
proof (induction n rule: digits.induct)
  case (1 n)
  show ?case
  proof (cases "n < 10")
    case True
    then show ?thesis
      using digit_no_T [of n] by (subst digits.simps) auto
  next
    case False
    have "n mod 10 < 10" by simp
    then show ?thesis
      using 1 False digit_no_T [of "n mod 10"] by (subst digits.simps) auto
  qed
qed

lemma toString_no_T: "CHR ''T'' \<notin> set (toString i)"
  by (simp add: toString_def digits_no_T)

lemma padStart_no_T: "CHR ''T'' \<notin> set (padStart n CHR ''0'' (toString i))"
  by (auto simp: padStart_def toString_no_T)

lemma before_T_toISOString: "before_T (toISOString t) = utc_date t"
proof -
  have n: "CHR ''T'' \<notin> set (utc_date t)"
    by (auto simp: utc_date_def Let_def padStart_no_T)
  have "\<exists>rest. toISOString t = utc_date t @ CHR ''T'' # rest"
    by (simp add: toISOString_def utc_date_def Let_def)
  then obtain rest where r: "toISOString t = utc_date t @ CHR ''T'' # rest" ..
  have "takeWhile (\<lambda>c. c \<noteq> CHR ''T'') (utc_date t @ CHR ''T'' # rest) =
      utc_date t @ takeWhile (\<lambda>c. c \<noteq> CHR ''T'') (CHR ''T'' # rest)"
    by (rule takeWhile_append2) (use n in auto)
  then show ?thesis
    by (simp add: before_T_def r)
qed

text \<open>
  When local time is UTC the three keys are those of the specification, for every time
  value: the daily key is the UTC date (whatever the local zone), the weekly key is the UTC
  date of the day \<open>WeekDay t\<close> days earlier, which is a Sunday and at most six days back,
  and the monthly key is the UTC year and month.
\<close>

lemma periodKey_utc:
  "periodKey tza ''daily'' t = utc_date t"
  "periodKey 0 ''weekly'' t = utc_date (t - WeekDay t * msPerDay)"
  "WeekDay (t - WeekDay t * msPerDay) = 0"
  "Day (t - WeekDay t * msPerDay) = Day t - WeekDay t"
  "0 \<le> WeekDay t \<and> WeekDay t \<le> 6"
  "periodKey 0 ''monthly'' t =
     toString (YearFromTime t) @ ''-'' @ padStart 2 CHR ''0'' (toString (MonthFromTime t + 1))"
proof -
  show "periodKey tza ''daily'' t = utc_date t"
    by (simp add: periodKey_def before_T_toISOString)
  show "periodKey 0 ''weekly'' t = utc_date (t - WeekDay t * msPerDay)"
    by (simp add: periodKey_def weekStart_utc before_T_toISOString Let_def)
  show "WeekDay (t - WeekDay t * msPerDay) = 0"
    by (rule WeekDay_week_start)
  show "Day (t - WeekDay t * msPerDay) = Day t - WeekDay t"
    by (rule Day_week_start)
  show "0 \<le> WeekDay t \<and> WeekDay t \<le> 6"
    by (rule WeekDay_range)
  show "periodKey 0 ''monthly'' t =
     toString (YearFromTime t) @ ''-'' @ padStart 2 CHR ''0'' (toString (MonthFromTime t + 1))"
    by (simp add: periodKey_def getFullYear_def getMonth_def)
qed

lemma toISOString_examples:
  "toISOString 1715817600000 = ''2024-05-16T00:00:00.000Z''"
  "toISOString 1716062400000 = ''2024-05-18T20:00:00.000Z''"
  "toISOString 1717185600000 = ''2024-05-31T20:00:00.000Z''"
  by code_simp+

text \<open>
  With local time equal to UTC the keys of the specification's examples come out:
  2024-05-16 was a Thursday, and the Sunday before it was 2024-05-12.
\<close>

lemma periodKey_utc_examples:
  "periodKey 0 ''daily'' 1715817600000 = ''2024-05-16''"
  "periodKey 0 ''monthly'' 1715817600000 = ''2024-05''"
  "WeekDay 1715817600000 = 4"
  "periodKey 0 ''weekly'' 1715817600000 = ''2024-05-12''"
  by code_simp+

text \<open>
  C3 does not hold of the code in a process whose local time zone is not UTC, because the
  weekly branch reads the day of the month and the day of the week in local time and
  prints the result in UTC. In Asia/Tokyo (\<open>tza\<close> = +9 h) an order created at
  2024-05-18T20:00:00Z, a Saturday in UTC and already Sunday 2024-05-19 05:00 in Tokyo,
  gets the weekly key 2024-05-18: the date of a Saturday, neither the UTC Sunday on or
  before the record's date (2024-05-12, which the same code returns when local time is
  UTC) nor the local Sunday.
\<close>

theorem weekly_key_not_sunday_in_tokyo:
  "toISOString 1716062400000 = ''2024-05-18T20:00:00.000Z''
   \<and> WeekDay 1716062400000 = 6
   \<and> getDay 32400000 1716062400000 = 0
   \<and> periodKey 32400000 ''weekly'' 1716062400000 = ''2024-05-18''
   \<and> periodKey 0 ''weekly'' 1716062400000 = ''2024-05-12''"
  by code_simp

text \<open>
  The monthly branch reads the local month as well: 2024-05-31T20:00:00Z falls in June in
  Tokyo.
\<close>

lemma monthly_key_in_tokyo:
  "periodKey 32400000 ''monthly'' 1717185600000 = ''2024-06''"
  "periodKey 0 ''monthly'' 1717185600000 = ''2024-05''"
  by code_simp+

subsection \<open>get_sales_trends: grouping by period\<close>

record trend =
  period :: string
  totalSales :: number
  orderCount :: nat

text \<open>The body of \<open>orders.forEach\<close> in get_sales_trends.\<close>

definition trend_step :: "int \<Rightarrow> string \<Rightarrow> trend js_object \<Rightarrow> order \<Rightarrow> trend js_object" where
  "trend_step tza interval salesByInterval ord =
     (let totalPrice = amount (totalPriceSet ord);
          k = periodKey tza interval (createdAt ord);
          obj = (case map_of salesByInterval k of
                   None \<Rightarrow>
                     AList.update k \<lparr>period = k, totalSales = 0, orderCount = 0\<rparr> salesByInterval
                 | Some b \<Rightarrow> salesByInterval)
      in case map_of obj k of
           None \<Rightarrow> obj
         | Some b \<Rightarrow>
             AList.update k
               (b\<lparr>totalSales := totalSales b + totalPrice, orderCount := orderCount b + 1\<rparr>) obj)"

definition salesByInterval :: "int \<Rightarrow> string \<Rightarrow> order list \<Rightarrow> trend js_object" where
  "salesByInterval tza interval orders = foldl (trend_step tza interval) [] orders"






subsection \<open>The grouping does not depend on the order of the records\<close>


lemma mset_filter_cong:
  "mset xs = mset ys \<Longrightarrow> mset (filter P xs) = mset (filter P ys)"
  by simp







section \<open>Sorting, slicing and the tool handlers of shopify.ts\<close>

text \<open>
  \<open>Array.prototype.sort\<close> with a comparator is a stable sort: \<open>a\<close> stays before \<open>b\<close>
  unless the comparator is positive on \<open>(a, b)\<close>. Insertion from the right keeps equal
  elements in their order.
\<close>

fun insert_by :: "('a \<Rightarrow> 'a \<Rightarrow> number) \<Rightarrow> 'a \<Rightarrow> 'a list \<Rightarrow> 'a list" where
  "insert_by cmp x [] = [x]"
| "insert_by cmp x (y # ys) = (if cmp x y \<le> 0 then x # y # ys else y # insert_by cmp x ys)"

definition js_sort :: "('a \<Rightarrow> 'a \<Rightarrow> number) \<Rightarrow> 'a list \<Rightarrow> 'a list" where
  "js_sort cmp xs = foldr (insert_by cmp) xs []"

text \<open>
  \<open>xs.slice(0, end)\<close> for an integer \<open>end\<close>: a negative \<open>end\<close> counts from the end of
  the array.
\<close>

definition slice0 :: "'a list \<Rightarrow> int \<Rightarrow> 'a list" where
  "slice0 xs end_ix =
     (let len = int (length xs);
          final = (if end_ix < 0 then max (len + end_ix) 0 else min end_ix len)
      in take (nat final) xs)"

text \<open>
  \<open>a.localeCompare(b)\<close> on period keys: the keys are digits and hyphens, on which the
  collation is the order of the character codes.
\<close>

fun str_less :: "string \<Rightarrow> string \<Rightarrow> bool" where
  "str_less [] [] = False"
| "str_less [] (y # ys) = True"
| "str_less (x # xs) [] = False"
| "str_less (x # xs) (y # ys) =
     ((of_char x :: nat) < of_char y \<or> (x = y \<and> str_less xs ys))"

definition localeCompare :: "string \<Rightarrow> string \<Rightarrow> number" where
  "localeCompare a b = (if str_less a b then - 1 else if a = b then 0 else 1)"

subsection \<open>get_sales_trends: the output list\<close>

record trendOut = trend +
  averageOrderValue :: "number option"

definition format_trend :: "trend \<Rightarrow> trendOut" where
  "format_trend b =
     trend.extend (b\<lparr>totalSales := toFixed2 (totalSales b)\<rparr>)
       (trendOut.fields
          (map_option toFixed2 (js_div (totalSales b) (of_nat (orderCount b)))))"

definition by_period :: "trend \<Rightarrow> trend \<Rightarrow> number" where
  "by_period a b = localeCompare (period a) (period b)"

definition sortedSalesTrends :: "int \<Rightarrow> string \<Rightarrow> order list \<Rightarrow> trendOut list" where
  "sortedSalesTrends tza interval os =
     map format_trend (js_sort by_period (map snd (salesByInterval tza interval os)))"

subsection \<open>get_sales_by_product\<close>

record productSale =
  productId :: string
  productTitle :: string
  totalQuantity :: int
  totalSales :: number
  currencyCode :: string
  orders :: nat

text \<open>An entry of the output: the product's fields and its average.\<close>

record productOut = productSale +
  averageOrderValue :: "number option"

text \<open>\<open>v || d\<close> for an optional string: the empty string is falsy.\<close>

definition or_else :: "string option \<Rightarrow> string \<Rightarrow> string" where
  "or_else v d = (case v of None \<Rightarrow> d | Some str \<Rightarrow> if str = [] then d else str)"

text \<open>The body of \<open>lineItems.forEach\<close>.\<close>

definition product_item_step :: "productSale js_object \<Rightarrow> lineItem \<Rightarrow> productSale js_object" where
  "product_item_step productSales item =
     (let pid = or_else (map_option fst (product item)) (title item);
          ptitle = or_else (map_option snd (product item)) (title item);
          qty = quantity item;
          totalPrice = amount (originalTotalSet item);
          cc = shopMoney.currencyCode (originalTotalSet item);
          obj = (case map_of productSales pid of
                   None \<Rightarrow>
                     AList.update pid
                       \<lparr>productId = pid, productTitle = ptitle, totalQuantity = 0,
                        totalSales = 0, currencyCode = cc, orders = 0\<rparr> productSales
                 | Some b \<Rightarrow> productSales)
      in case map_of obj pid of
           None \<Rightarrow> obj
         | Some b \<Rightarrow>
             AList.update pid
               (b\<lparr>totalQuantity := totalQuantity b + qty,
                  totalSales := totalSales b + totalPrice,
                  orders := orders b + 1\<rparr>) obj)"

text \<open>The body of \<open>orders.forEach\<close>, and the whole grouping.\<close>

definition product_order_step :: "productSale js_object \<Rightarrow> order \<Rightarrow> productSale js_object" where
  "product_order_step productSales ord = foldl product_item_step productSales (lineItems ord)"

definition productSales :: "order list \<Rightarrow> productSale js_object" where
  "productSales os = foldl product_order_step [] os"

definition format_product :: "productSale \<Rightarrow> productOut" where
  "format_product p =
     productSale.extend (p\<lparr>totalSales := toFixed2 (totalSales p)\<rparr>)
       (productOut.fields
          (map_option toFixed2 (js_div (totalSales p) (of_nat (orders p)))))"

text \<open>\<open>(a, b) => b.totalSales - a.totalSales\<close>\<close>

definition by_sales_desc :: "productSale \<Rightarrow> productSale \<Rightarrow> number" where
  "by_sales_desc a b = totalSales b - totalSales a"

definition sortedProductSales :: "order list \<Rightarrow> int \<Rightarrow> productOut list" where
  "sortedProductSales os limit =
     map format_product (slice0 (js_sort by_sales_desc (map snd (productSales os))) limit)"

subsection \<open>The record source of get_sales_summary\<close>

text \<open>The variables of a request of the summary loop: 100 orders a page.\<close>

definition summary_request :: "string \<Rightarrow> string option \<Rightarrow> variables" where
  "summary_request queryFilter cursor = \<lparr>query = queryFilter, first = 100, after = cursor\<rparr>"

text \<open>
  The loop state is the triple of the local variables \<open>hasNextPage\<close>, \<open>endCursor\<close> and
  \<open>allOrders\<close>. This is the loop body up to its last statement; a failed request
  throws.
\<close>

type_synonym fetch_state = "bool \<times> string option \<times> order list"

definition fetch_body :: "upstream \<Rightarrow> string \<Rightarrow> fetch_state \<Rightarrow> mcp_error + fetch_state" where
  "fetch_body up queryFilter st =
     (case st of (hasNext, cursor, allOrders) \<Rightarrow>
        (case up (summary_request queryFilter cursor) of
           Inl e \<Rightarrow> Inl e
         | Inr data \<Rightarrow> Inr (hasNextPage data, endCursor data, allOrders @ edges data)))"

text \<open>
  \<open>while (hasNextPage) { ...; break; }\<close>: the last statement of the body is an
  unconditional \<open>break\<close>, so the condition is tested once, with its initial value, and
  the body runs once. The first component lists the requests issued.
\<close>

definition fetch_allOrders :: "upstream \<Rightarrow> string \<Rightarrow> variables list \<times> (mcp_error + order list)" where
  "fetch_allOrders up queryFilter =
     (let st0 = (True, None, []) in
      if fst st0 then
        (case fetch_body up queryFilter st0 of
           Inl e \<Rightarrow> ([summary_request queryFilter (fst (snd st0))], Inl e)
         | Inr st1 \<Rightarrow> ([summary_request queryFilter (fst (snd st0))], Inr (snd (snd st1))))
      else ([], Inr (snd (snd st0))))"


subsection \<open>The handlers\<close>

text \<open>
  The arguments of a tool call, destructured; \<open>None\<close> is an absent argument. The dates,
  the currency code and the interval are taken to be strings and the limit an integer, as
  the input schema declares them.
\<close>

record tool_args =
  startDate :: "string option"
  endDate :: "string option"
  currencyCode :: "string option"
  limit :: "int option"
  interval :: "string option"

text \<open>\<open>!arg\<close> for an optional string: absent or empty.\<close>

definition missing :: "string option \<Rightarrow> bool" where
  "missing v = (case v of None \<Rightarrow> True | Some str \<Rightarrow> str = [])"

datatype tool_result =
  SalesSummary summary
| SalesByProduct "productOut list"
| SalesTrends "trendOut list"

type_synonym tool_outcome = "variables list \<times> (mcp_error + tool_result)"

definition date_filter :: "string \<Rightarrow> string \<Rightarrow> string" where
  "date_filter sd ed = ''created_at:>='' @ sd @ '' created_at:<='' @ ed @ '' status:any''"

definition get_sales_summary :: "upstream \<Rightarrow> tool_args \<Rightarrow> tool_outcome" where
  "get_sales_summary up args =
     (case (startDate args, endDate args) of
        (Some sd, Some ed) \<Rightarrow>
          if sd = [] \<or> ed = [] then
            ([], Inl (McpError InvalidParams
                ''startDate and endDate are required for get_sales_summary.''))
          else
            (let queryFilter =
                   (if missing (tool_args.currencyCode args) then date_filter sd ed
                    else date_filter sd ed @ '' currency:''
                           @ or_else (tool_args.currencyCode args) [])
             in case fetch_allOrders up queryFilter of
                  (reqs, Inl e) \<Rightarrow> (reqs, Inl e)
                | (reqs, Inr allOrders) \<Rightarrow>
                    (reqs, Inr (SalesSummary (formattedSummary (sales_summary allOrders)))))
      | _ \<Rightarrow>
          ([], Inl (McpError InvalidParams
              ''startDate and endDate are required for get_sales_summary.'')))"

definition get_sales_by_product :: "upstream \<Rightarrow> tool_args \<Rightarrow> tool_outcome" where
  "get_sales_by_product up args =
     (case (startDate args, endDate args) of
        (Some sd, Some ed) \<Rightarrow>
          if sd = [] \<or> ed = [] then
            ([], Inl (McpError InvalidParams
                ''startDate and endDate are required for get_sales_by_product.''))
          else
            (let lim = (case limit args of None \<Rightarrow> 10 | Some l \<Rightarrow> l);
                 vars = \<lparr>query = date_filter sd ed, first = 50, after = None\<rparr>
             in case up vars of
                  Inl e \<Rightarrow> ([vars], Inl e)
                | Inr data \<Rightarrow>
                    ([vars], Inr (SalesByProduct (sortedProductSales (edges data) lim))))
      | _ \<Rightarrow>
          ([], Inl (McpError InvalidParams
              ''startDate and endDate are required for get_sales_by_product.'')))"

definition get_sales_trends :: "int \<Rightarrow> upstream \<Rightarrow> tool_args \<Rightarrow> tool_outcome" where
  "get_sales_trends tza up args =
     (case (startDate args, endDate args, interval args) of
        (Some sd, Some ed, Some iv) \<Rightarrow>
          if sd = [] \<or> ed = [] \<or> iv = [] then
            ([], Inl (McpError InvalidParams
                ''startDate, endDate, and interval are required for get_sales_trends.''))
          else if iv \<notin> set [''daily'', ''weekly'', ''monthly''] then
            ([], Inl (McpError InvalidParams
                ''interval must be one of: daily, weekly, monthly''))
          else
            (let vars = \<lparr>query = date_filter sd ed, first = 250, after = None\<rparr>
             in case up vars of
                  Inl e \<Rightarrow> ([vars], Inl e)
                | Inr data \<Rightarrow>
                    ([vars], Inr (SalesTrends (sortedSalesTrends tza iv (edges data)))))
      | _ \<Rightarrow>
          ([], Inl (McpError InvalidParams
              ''startDate, endDate, and interval are required for get_sales_trends.'')))"

text \<open>
  The request handler. \<open>shopifyConfig\<close> is \<open>None\<close> when the environment did not
  configure the client, and otherwise stands for the upstream the configuration reaches.
\<close>

definition call_tool :: "upstream option \<Rightarrow> int \<Rightarrow> string \<Rightarrow> tool_args \<Rightarrow> tool_outcome" where
  "call_tool shopifyConfig tza toolName args =
     (case shopifyConfig of
        None \<Rightarrow>
          ([], Inl (McpError InvalidRequest
              (''Shopify client not configured. Please set SHOPIFY_SHOP_DOMAIN, ''
               @ ''SHOPIFY_ACCESS_TOKEN, and SHOPIFY_API_VERSION environment variables.'')))
      | Some up \<Rightarrow>
          if toolName = ''get_sales_summary'' then get_sales_summary up args
          else if toolName = ''get_sales_by_product'' then get_sales_by_product up args
          else if toolName = ''get_sales_trends'' then get_sales_trends tza up args
          else ([], Inl (McpError InvalidRequest (''Unknown tool: '' @ toolName))))"

subsection \<open>Validation comes before the query\<close>






text \<open>No tool issues a request when the client is not configured.\<close>

lemma call_tool_unconfigured:
  "\<exists>msg. call_tool None tza toolName args = ([], Inl (McpError InvalidRequest msg))"
  by (simp add: call_tool_def)

subsection \<open>What the summary loop fetches\<close>

lemma fetch_allOrders_requests:
  "fst (fetch_allOrders up qf) = [summary_request qf None]"
  by (simp add: fetch_allOrders_def Let_def split: sum.splits)






subsection \<open>Facts about the product and period buckets, sorting and rounding\<close>

lemma set_update_cases:
  "(a, b) \<in> set (AList.update k v al) \<Longrightarrow> (a, b) = (k, v) \<or> (a, b) \<in> set al"
  by (induction al) (auto split: if_splits)

lemma product_item_step_orders:
  assumes "\<forall>p \<in> snd ` set obj. 0 < orders p"
  shows "\<forall>p \<in> snd ` set (product_item_step obj item). 0 < orders p"
  using assms
  by (auto simp: product_item_step_def Let_def update_conv' split: option.splits
      dest!: set_update_cases)

lemma foldl_item_orders:
  "\<forall>p \<in> snd ` set obj. 0 < orders p \<Longrightarrow>
   \<forall>p \<in> snd ` set (foldl product_item_step obj items). 0 < orders p"
proof (induction items arbitrary: obj)
  case Nil
  then show ?case by simp
next
  case (Cons item items)
  from Cons.IH [OF product_item_step_orders [OF Cons.prems]] show ?case by simp
qed

lemma foldl_order_orders:
  "\<forall>p \<in> snd ` set obj. 0 < orders p \<Longrightarrow>
   \<forall>p \<in> snd ` set (foldl product_order_step obj os). 0 < orders p"
proof (induction os arbitrary: obj)
  case Nil
  then show ?case by simp
next
  case (Cons ord os)
  have "\<forall>p \<in> snd ` set (product_order_step obj ord). 0 < orders p"
    unfolding product_order_step_def by (rule foldl_item_orders [OF Cons.prems])
  from Cons.IH [OF this] show ?case by simp
qed

lemma productSales_orders_pos:
  "p \<in> set (map snd (productSales os)) \<Longrightarrow> 0 < orders p"
  using foldl_order_orders [of "[]" os] by (force simp: productSales_def)

lemma trend_step_count:
  assumes "\<forall>b \<in> snd ` set obj. 0 < orderCount b"
  shows "\<forall>b \<in> snd ` set (trend_step tza iv obj ord). 0 < orderCount b"
  using assms
  by (auto simp: trend_step_def Let_def update_conv' split: option.splits
      dest!: set_update_cases)

lemma foldl_trend_count:
  "\<forall>b \<in> snd ` set obj. 0 < orderCount b \<Longrightarrow>
   \<forall>b \<in> snd ` set (foldl (trend_step tza iv) obj os). 0 < orderCount b"
proof (induction os arbitrary: obj)
  case Nil
  then show ?case by simp
next
  case (Cons ord os)
  from Cons.IH [OF trend_step_count [OF Cons.prems]] show ?case by simp
qed

lemma salesByInterval_count_pos:
  "b \<in> set (map snd (salesByInterval tza iv os)) \<Longrightarrow> 0 < orderCount b"
  using foldl_trend_count [of "[]" tza iv os] by (force simp: salesByInterval_def)

lemma set_insert_by: "set (insert_by cmp x xs) = insert x (set xs)"
  by (induction xs) auto

lemma mset_insert_by: "mset (insert_by cmp x xs) = add_mset x (mset xs)"
  by (induction xs) auto

lemma mset_js_sort: "mset (js_sort cmp xs) = mset xs"
  by (induction xs) (simp_all add: js_sort_def mset_insert_by)

lemma set_js_sort: "set (js_sort cmp xs) = set xs"
  by (metis mset_js_sort mset_eq_setD)

lemma slice0_nonneg: "0 \<le> n \<Longrightarrow> slice0 xs n = take (nat n) xs"
  by (simp add: slice0_def Let_def min_def)

lemma set_slice0: "set (slice0 xs n) \<subseteq> set xs"
  by (simp add: slice0_def Let_def set_take_subset)

lemma insert_by_sorted:
  "sorted_wrt (\<lambda>a b. productSale.totalSales b \<le> productSale.totalSales a) xs \<Longrightarrow>
   sorted_wrt (\<lambda>a b. productSale.totalSales b \<le> productSale.totalSales a)
     (insert_by by_sales_desc x xs)"
  by (induction xs) (auto simp: set_insert_by by_sales_desc_def)

lemma js_sort_sorted:
  "sorted_wrt (\<lambda>a b. productSale.totalSales b \<le> productSale.totalSales a)
     (js_sort by_sales_desc xs)"
  by (induction xs) (simp_all add: js_sort_def insert_by_sorted)

lemma toFixed2_mono: "x \<le> y \<Longrightarrow> toFixed2 x \<le> toFixed2 y"
proof -
  assume xy: "x \<le> y"
  have nn: "\<And>z::rat. 0 \<le> z \<Longrightarrow> 0 \<le> \<lfloor>z * 100 + 1 / 2\<rfloor>"
    by (simp add: zero_le_floor)
  show ?thesis
  proof (cases "x < 0")
    case xneg: True
    show ?thesis
    proof (cases "y < 0")
      case True
      have "\<lfloor>(- y) * 100 + 1 / 2\<rfloor> \<le> \<lfloor>(- x) * 100 + 1 / 2\<rfloor>"
        using xy by (intro floor_mono) simp
      then show ?thesis
        using xneg True by (simp add: toFixed2_def divide_le_cancel)
    next
      case False
      have "0 \<le> \<lfloor>(- x) * 100 + 1 / 2\<rfloor>" using xneg nn [of "- x"] by simp
      then have l: "toFixed2 x \<le> 0"
        using xneg by (simp add: toFixed2_def)
      have "0 \<le> \<lfloor>y * 100 + 1 / 2\<rfloor>" using False nn [of y] by simp
      then have r: "0 \<le> toFixed2 y"
        using False by (simp add: toFixed2_def)
      from l r show ?thesis by simp
    qed
  next
    case False
    then have "\<not> y < 0" using xy by simp
    moreover have "\<lfloor>x * 100 + 1 / 2\<rfloor> \<le> \<lfloor>y * 100 + 1 / 2\<rfloor>"
      using xy by (intro floor_mono) simp
    ultimately show ?thesis
      using False by (simp add: toFixed2_def divide_le_cancel)
  qed
qed

lemma format_product_fields:
  "productSale.totalSales (format_product p) = toFixed2 (productSale.totalSales p)"
  "productOut.averageOrderValue (format_product p) =
     map_option toFixed2 (js_div (productSale.totalSales p) (of_nat (orders p)))"
  "productId (format_product p) = productId p"
  by (simp_all add: format_product_def productSale.defs productOut.defs)

lemma format_trend_fields:
  "trend.totalSales (format_trend b) = toFixed2 (trend.totalSales b)"
  "trendOut.averageOrderValue (format_trend b) =
     map_option toFixed2 (js_div (trend.totalSales b) (of_nat (orderCount b)))"
  "period (format_trend b) = period b"
  by (simp_all add: format_trend_def trend.defs trendOut.defs)

subsection \<open>Products by sales\<close>

text \<open>One order with two line items: a mug for 50 and a desk for 200.\<close>

definition mug_item :: lineItem where
  "mug_item =
     \<lparr>title = ''Mug'', quantity = 1, originalTotalSet = money 50 ''USD'',
      product = Some (''gid://shopify/Product/1'', ''Mug'')\<rparr>"

definition desk_item :: lineItem where
  "desk_item =
     \<lparr>title = ''Desk'', quantity = 2, originalTotalSet = money 200 ''USD'',
      product = Some (''gid://shopify/Product/2'', ''Desk'')\<rparr>"

definition product_order :: order where
  "product_order = usd_order\<lparr>lineItems := [mug_item, desk_item]\<rparr>"

definition product_page :: upstream where
  "product_page v = Inr \<lparr>edges = [product_order], hasNextPage = False, endCursor = None\<rparr>"

definition product_args :: "int option \<Rightarrow> tool_args" where
  "product_args lmt =
     \<lparr>startDate = Some ''2024-05-01'', endDate = Some ''2024-05-31'', currencyCode = None,
      limit = lmt, interval = None\<rparr>"

definition mug_sale :: productSale where
  "mug_sale =
     \<lparr>productId = ''gid://shopify/Product/1'', productTitle = ''Mug'', totalQuantity = 1,
      totalSales = 50, currencyCode = ''USD'', orders = 1\<rparr>"

definition desk_sale :: productSale where
  "desk_sale =
     \<lparr>productId = ''gid://shopify/Product/2'', productTitle = ''Desk'', totalQuantity = 2,
      totalSales = 200, currencyCode = ''USD'', orders = 1\<rparr>"

lemmas product_eval =
  productSales_def product_order_step_def product_item_step_def or_else_def
  product_order_def mug_item_def desk_item_def mug_sale_def desk_sale_def money_def
  usd_order_def Let_def

lemma productSales_example:
  "productSales [product_order] =
     [(''gid://shopify/Product/1'', mug_sale), (''gid://shopify/Product/2'', desk_sale)]"
  by (simp add: product_eval)

lemma js_sort_example:
  "js_sort by_sales_desc [mug_sale, desk_sale] = [desk_sale, mug_sale]"
  by (simp add: js_sort_def by_sales_desc_def mug_sale_def desk_sale_def)

text \<open>
  The products of the example come out as desk (200), mug (50); a limit of 1 keeps the
  desk only.
\<close>

lemma get_sales_by_product_examples:
  "snd (get_sales_by_product product_page (product_args None)) =
     Inr (SalesByProduct [format_product desk_sale, format_product mug_sale])"
  "snd (get_sales_by_product product_page (product_args (Some 1))) =
     Inr (SalesByProduct [format_product desk_sale])"
  by (simp_all add: get_sales_by_product_def product_args_def product_page_def
      sortedProductSales_def productSales_example js_sort_example slice0_def)

text \<open>
  C7, as stated, fails for a negative limit, which the code does not reject:
  \<open>slice(0, -1)\<close> drops the last entry of the sorted list, so with the two products of
  the example and the limit -1 the output has one entry, the desk, where the first -1
  entries of any list are none.
\<close>

theorem negative_limit_counterexample:
  "snd (get_sales_by_product product_page (product_args (Some (- 1)))) =
     Inr (SalesByProduct [format_product desk_sale])
   \<and> js_sort by_sales_desc (map snd (productSales [product_order])) = [desk_sale, mug_sale]
   \<and> take (nat (- 1)) [desk_sale, mug_sale] = []"
  by (simp add: get_sales_by_product_def product_args_def product_page_def
      sortedProductSales_def productSales_example js_sort_example slice0_def)

text \<open>
  C7, amended: for a call of get_sales_by_product with both dates present, a successful
  upstream answer and a limit that is not negative (10 when the caller gives none), the
  output is the formatted first \<open>limit\<close> entries of a list that holds exactly the
  per-product aggregates of the answer's orders and is sorted by \<open>totalSales\<close>
  descending; the output itself is in descending order of its (rounded) \<open>totalSales\<close>.
\<close>

theorem sales_by_product_sorted_truncated:
  assumes "startDate args = Some sd" and "sd \<noteq> []"
    and "endDate args = Some ed" and "ed \<noteq> []"
    and "up \<lparr>query = date_filter sd ed, first = 50, after = None\<rparr> = Inr data"
    and "lmt = (case limit args of None \<Rightarrow> 10 | Some l \<Rightarrow> l)" and "0 \<le> lmt"
  shows "\<exists>sorted.
      mset sorted = mset (map snd (productSales (edges data)))
      \<and> sorted_wrt (\<lambda>a b. productSale.totalSales b \<le> productSale.totalSales a) sorted
      \<and> snd (get_sales_by_product up args) =
          Inr (SalesByProduct (map format_product (take (nat lmt) sorted)))
      \<and> sorted_wrt (\<lambda>a b. productSale.totalSales b \<le> productSale.totalSales a)
          (map format_product (take (nat lmt) sorted))"
proof -
  let ?sorted = "js_sort by_sales_desc (map snd (productSales (edges data)))"
  have m: "mset ?sorted = mset (map snd (productSales (edges data)))"
    by (rule mset_js_sort)
  have s: "sorted_wrt (\<lambda>a b. productSale.totalSales b \<le> productSale.totalSales a) ?sorted"
    by (rule js_sort_sorted)
  have r: "snd (get_sales_by_product up args) =
      Inr (SalesByProduct (map format_product (take (nat lmt) ?sorted)))"
    using assms
    by (simp add: get_sales_by_product_def sortedProductSales_def slice0_nonneg Let_def)
  have "sorted_wrt (\<lambda>a b. productSale.totalSales b \<le> productSale.totalSales a)
      (take (nat lmt) ?sorted)"
    using s by (rule sorted_wrt_take)
  then have o: "sorted_wrt (\<lambda>a b. productSale.totalSales b \<le> productSale.totalSales a)
      (map format_product (take (nat lmt) ?sorted))"
    unfolding sorted_wrt_map format_product_fields
    by (rule sorted_wrt_mono_rel [rotated]) (simp add: toFixed2_mono)
  from m s r o show ?thesis by blast
qed


theorem sales_by_product_sorted_truncated_witness:
  "(\<exists>sorted.
      mset sorted = mset (map snd (productSales [product_order]))
      \<and> sorted_wrt (\<lambda>a b. productSale.totalSales b \<le> productSale.totalSales a) sorted
      \<and> snd (get_sales_by_product product_page (product_args (Some 1))) =
          Inr (SalesByProduct (map format_product (take (nat 1) sorted)))
      \<and> sorted_wrt (\<lambda>a b. productSale.totalSales b \<le> productSale.totalSales a)
          (map format_product (take (nat 1) sorted)))
   \<and> map snd (productSales [product_order]) = [mug_sale, desk_sale]
   \<and> productSale.totalSales mug_sale = 50 \<and> productSale.totalSales desk_sale = 200
   \<and> snd (get_sales_by_product product_page (product_args None)) =
       Inr (SalesByProduct [format_product desk_sale, format_product mug_sale])
   \<and> snd (get_sales_by_product product_page (product_args (Some 1))) =
       Inr (SalesByProduct [format_product desk_sale])"
proof -
  have "\<exists>sorted.
      mset sorted = mset (map snd (productSales [product_order]))
      \<and> sorted_wrt (\<lambda>a b. productSale.totalSales b \<le> productSale.totalSales a) sorted
      \<and> snd (get_sales_by_product product_page (product_args (Some 1))) =
          Inr (SalesByProduct (map format_product (take (nat 1) sorted)))
      \<and> sorted_wrt (\<lambda>a b. productSale.totalSales b \<le> productSale.totalSales a)
          (map format_product (take (nat 1) sorted))"
    using sales_by_product_sorted_truncated
      [of "product_args (Some 1)" "''2024-05-01''" "''2024-05-31''" product_page
        "\<lparr>edges = [product_order], hasNextPage = False, endCursor = None\<rparr>" 1]
    by (simp add: product_args_def product_page_def)
  then show ?thesis
    using get_sales_by_product_examples
    by (simp add: productSales_example mug_sale_def desk_sale_def)
qed

subsection \<open>Averages\<close>

definition fifty_order :: order where
  "fifty_order = usd_order\<lparr>totalPriceSet := money 50 ''USD''\<rparr>"

text \<open>
  C6: the average order value of the summary is \<open>totalSales / totalOrders\<close> when there
  is an order and exactly 0 when there is none, and is formatted by \<open>toFixed(2)\<close>. Every
  entry of the product output and of the trend output is the formatting of a bucket of
  the grouping; every such bucket has a positive count, so the unguarded divisions never
  divide by zero, and the average reported is \<open>totalSales / count\<close> of the bucket, to
  two decimals.
\<close>

theorem averages_zero_safe:
  "summary.averageOrderValue (sales_summary os) =
     (if 0 < totalOrders (sales_summary os)
      then summary.totalSales (sales_summary os) / of_nat (totalOrders (sales_summary os))
      else 0)
   \<and> summary.averageOrderValue (formattedSummary (sales_summary os)) =
       toFixed2 (summary.averageOrderValue (sales_summary os))
   \<and> set (sortedProductSales os lmt) \<subseteq> format_product ` set (map snd (productSales os))
   \<and> (\<forall>p \<in> set (map snd (productSales os)).
         0 < orders p
         \<and> productOut.averageOrderValue (format_product p) =
             Some (toFixed2 (productSale.totalSales p / of_nat (orders p))))
   \<and> set (sortedSalesTrends tza iv os)
       \<subseteq> format_trend ` set (map snd (salesByInterval tza iv os))
   \<and> (\<forall>b \<in> set (map snd (salesByInterval tza iv os)).
         0 < orderCount b
         \<and> trendOut.averageOrderValue (format_trend b) =
             Some (toFixed2 (trend.totalSales b / of_nat (orderCount b))))"
proof -
  have a: "summary.averageOrderValue (sales_summary os) =
     (if 0 < totalOrders (sales_summary os)
      then summary.totalSales (sales_summary os) / of_nat (totalOrders (sales_summary os))
      else 0)"
    by (simp add: sales_summary_def Let_def)
  have b: "summary.averageOrderValue (formattedSummary (sales_summary os)) =
       toFixed2 (summary.averageOrderValue (sales_summary os))"
    by (simp add: formattedSummary_def)
  have c: "set (sortedProductSales os lmt) \<subseteq> format_product ` set (map snd (productSales os))"
    unfolding sortedProductSales_def set_map
    using set_slice0 [of "js_sort by_sales_desc (map snd (productSales os))" lmt]
    by (auto simp: set_js_sort)
  have d: "\<forall>p \<in> set (map snd (productSales os)).
         0 < orders p
         \<and> productOut.averageOrderValue (format_product p) =
             Some (toFixed2 (productSale.totalSales p / of_nat (orders p)))"
    using productSales_orders_pos [of _ os]
    by (auto simp: format_product_fields js_div_def)
  have e: "set (sortedSalesTrends tza iv os)
       \<subseteq> format_trend ` set (map snd (salesByInterval tza iv os))"
    by (simp add: sortedSalesTrends_def set_js_sort)
  have f: "\<forall>b \<in> set (map snd (salesByInterval tza iv os)).
         0 < orderCount b
         \<and> trendOut.averageOrderValue (format_trend b) =
             Some (toFixed2 (trend.totalSales b / of_nat (orderCount b)))"
    using salesByInterval_count_pos [of _ tza iv os]
    by (auto simp: format_trend_fields js_div_def)
  from a b c d e f show ?thesis by blast
qed

lemma salesByInterval_example:
  "salesByInterval 0 ''daily'' [usd_order, jpy_order] =
     [(''2024-05-16'', \<lparr>period = ''2024-05-16'', totalSales = 1100, orderCount = 2\<rparr>)]"
proof -
  have k: "periodKey 0 ''daily'' 1715817600000 = ''2024-05-16''"
    by code_simp
  show ?thesis
    by (simp add: salesByInterval_def trend_step_def usd_order_def jpy_order_def money_def
        k Let_def)
qed

theorem averages_zero_safe_witness:
  "summary.averageOrderValue (sales_summary []) = 0
   \<and> summary.totalSales
        (sales_summary [fifty_order, fifty_order, fifty_order, fifty_order, fifty_order]) = 250
   \<and> summary.averageOrderValue
        (sales_summary [fifty_order, fifty_order, fifty_order, fifty_order, fifty_order]) = 50
   \<and> desk_sale \<in> set (map snd (productSales [product_order]))
   \<and> productOut.averageOrderValue (format_product desk_sale) = Some 200
   \<and> trendOut.averageOrderValue
        (format_trend \<lparr>period = ''2024-05-16'', totalSales = 1100, orderCount = 2\<rparr>) = Some 550"
proof -
  let ?five = "[fifty_order, fifty_order, fifty_order, fifty_order, fifty_order]"
  let ?b = "\<lparr>period = ''2024-05-16'', totalSales = 1100, orderCount = 2\<rparr>"
  have v: "totalOrders (sales_summary []) = 0" "totalOrders (sales_summary ?five) = 5"
    "summary.totalSales (sales_summary ?five) = 250"
    by (simp_all add: sales_summary_fields price_def fifty_order_def usd_order_def money_def)
  have m: "desk_sale \<in> set (map snd (productSales [product_order]))"
    by (simp add: productSales_example)
  have t: "?b \<in> set (map snd (salesByInterval 0 ''daily'' [usd_order, jpy_order]))"
    by (simp add: salesByInterval_example)
  have r: "toFixed2 200 = 200" "toFixed2 550 = 550"
    by (simp_all add: toFixed2_def floor_eq_iff)
  from averages_zero_safe [of "[]" 10 0 "''daily''"] v
  have 1: "summary.averageOrderValue (sales_summary []) = 0" by simp
  from averages_zero_safe [of ?five 10 0 "''daily''"] v
  have 2: "summary.averageOrderValue (sales_summary ?five) = 50" by simp
  from averages_zero_safe [of "[product_order]" 10 0 "''daily''"] m
  have 3: "productOut.averageOrderValue (format_product desk_sale) = Some 200"
    by (auto simp: desk_sale_def r)
  from averages_zero_safe [of "[usd_order, jpy_order]" 10 0 "''daily''"] t
  have 4: "trendOut.averageOrderValue (format_trend ?b) = Some 550"
    by (auto simp: r)
  from 1 2 3 4 v m show ?thesis by simp
qed

section \<open>Web analytics funnels (ga4.ts)\<close>

subsection \<open>Reports and event counts\<close>

text \<open>
  A row of a report, as the code reads it: \<open>row.dimensionValues?.[0]?.value\<close>, and the
  integer that \<open>row.metricValues?.[0]?.value\<close> denotes (the API sends event counts as
  decimal numerals); either may be absent. \<open>response.rows\<close> may be absent too.
\<close>

record report_row =
  dimensionValue :: "string option"
  metricValue :: "int option"

record report_request =
  dateRange :: "string \<times> string"
  dimensions :: "string list"
  eventNames :: "string list"

text \<open>\<open>runReport\<close> on the configured client: an error message or the rows.\<close>

type_synonym ga_client = "report_request \<Rightarrow> string + report_row list option"

text \<open>
  A JavaScript \<open>Map\<close> with keys that are strings or \<open>null\<close> (\<open>None\<close>): an association
  list in insertion order; \<open>set\<close> is \<^const>\<open>AList.update\<close>, \<open>get\<close> is \<^const>\<open>map_of\<close>.
\<close>

type_synonym counts = "(string option \<times> int) list"

text \<open>\<open>m.get(k) ?? 0\<close>\<close>

definition get_or_zero :: "('k \<times> int) list \<Rightarrow> 'k \<Rightarrow> int" where
  "get_or_zero m k = (case map_of m k of None \<Rightarrow> 0 | Some n \<Rightarrow> n)"

text \<open>\<open>parseInt(row.metricValues?.[0]?.value ?? "0", 10)\<close>\<close>

definition row_count :: "report_row \<Rightarrow> int" where
  "row_count row = (case metricValue row of None \<Rightarrow> 0 | Some n \<Rightarrow> n)"

text \<open>
  \<open>getEventCount\<close>, the helper that calculate_cvr and analyze_user_journey both define:
  without a dimension the total goes under the key \<open>null\<close>; with one, each row sets the
  count of its dimension value (\<open>unknown\<close> when absent), a later row replacing an earlier
  one of the same value.
\<close>

definition getEventCount ::
  "ga_client \<Rightarrow> string \<times> string \<Rightarrow> string list \<Rightarrow> string option \<Rightarrow> mcp_error + counts" where
  "getEventCount client dr names dimensionName =
     (case client \<lparr>dateRange = dr,
                    dimensions = (if missing dimensionName then []
                                  else [or_else dimensionName []]),
                    eventNames = names\<rparr> of
        Inl msg \<Rightarrow> Inl (McpError InternalError (''GA4 API Error fetching event count: '' @ msg))
      | Inr rows \<Rightarrow>
          if missing dimensionName then
            Inr [(None,
                  (case rows of
                     None \<Rightarrow> 0
                   | Some rs \<Rightarrow> foldl (\<lambda>total row. total + row_count row) 0 rs))]
          else
            Inr (case rows of
                   None \<Rightarrow> []
                 | Some rs \<Rightarrow>
                     foldl (\<lambda>results row.
                              AList.update
                                (Some (case dimensionValue row of
                                         None \<Rightarrow> ''unknown'' | Some v \<Rightarrow> v))
                                (row_count row) results)
                       [] rs))"

text \<open>
  \<open>count / base * 100\<close>, to two decimals, when \<open>base\<close> is positive, and 0 otherwise: the
  expression of \<open>cvr\<close> and of \<open>conversionRate\<close>.
\<close>

definition rate_percent :: "int \<Rightarrow> int \<Rightarrow> number" where
  "rate_percent n base =
     (if base > 0 then toFixed2 (of_int n / of_int base * 100) else 0)"

text \<open>
  \<open>new Set(xs)\<close>, and \<open>add\<close> on a set: the elements in the order of their first
  insertion.
\<close>

definition set_add :: "'a list \<Rightarrow> 'a \<Rightarrow> 'a list" where
  "set_add st x = (if x \<in> set st then st else st @ [x])"

definition new_Set :: "'a list \<Rightarrow> 'a list" where
  "new_Set xs = foldl set_add [] xs"

subsection \<open>calculate_cvr\<close>

text \<open>
  The two tools are modelled as their bodies on a configured client, up to the result
  object or the \<open>McpError\<close> they throw (which the handler's outermost \<open>catch\<close> turns
  into a text answer).
\<close>

record cvr_entry =
  conversionEvents :: int
  baseEvents :: int
  cvr :: number

text \<open>\<open>segments\<close> is \<open>None\<close> when the key has been deleted from the result.\<close>

record cvr_result =
  overall :: cvr_entry
  segments :: "cvr_entry js_object option"

definition cvr_segment_step ::
  "counts \<Rightarrow> counts \<Rightarrow> cvr_entry js_object \<Rightarrow> string option \<Rightarrow> cvr_entry js_object" where
  "cvr_segment_step conversionCounts baseCounts segs segmentValue =
     (case segmentValue of
        None \<Rightarrow> segs
      | Some v \<Rightarrow>
          (let segmentConversions = get_or_zero conversionCounts segmentValue;
               segmentBase = get_or_zero baseCounts segmentValue
           in AList.update v
                \<lparr>conversionEvents = segmentConversions, baseEvents = segmentBase,
                 cvr = rate_percent segmentConversions segmentBase\<rparr> segs))"

text \<open>The computation from the two count maps.\<close>

definition cvr_results :: "string option \<Rightarrow> counts \<Rightarrow> counts \<Rightarrow> cvr_result" where
  "cvr_results segmentBy conversionCounts baseCounts =
     (let overallConversions = get_or_zero conversionCounts None;
          overallBase = get_or_zero baseCounts None;
          ov = \<lparr>conversionEvents = overallConversions, baseEvents = overallBase,
                cvr = rate_percent overallConversions overallBase\<rparr>
      in if \<not> missing segmentBy then
           (let allSegments =
                  filter (\<lambda>k. k \<noteq> None)
                    (new_Set (map fst conversionCounts @ map fst baseCounts))
            in \<lparr>overall = ov,
                segments =
                  Some (foldl (cvr_segment_step conversionCounts baseCounts) [] allSegments)\<rparr>)
         else \<lparr>overall = ov, segments = None\<rparr>)"

record cvr_args =
  arg_conversionEvents :: "string list option"
  arg_baseEvents :: "string list option"
  arg_segmentBy :: "string option"
  arg_dateRange :: "(string \<times> string) option"

definition calculate_cvr :: "ga_client \<Rightarrow> cvr_args \<Rightarrow> mcp_error + cvr_result" where
  "calculate_cvr client args =
     (case (arg_conversionEvents args, arg_baseEvents args, arg_dateRange args) of
        (Some ce, Some be, Some dr) \<Rightarrow>
          (case getEventCount client dr ce (arg_segmentBy args) of
             Inl e \<Rightarrow> Inl e
           | Inr conversionCounts \<Rightarrow>
               (case getEventCount client dr be (arg_segmentBy args) of
                  Inl e \<Rightarrow> Inl e
                | Inr baseCounts \<Rightarrow>
                    Inr (cvr_results (arg_segmentBy args) conversionCounts baseCounts)))
      | _ \<Rightarrow>
          Inl (McpError InvalidParams
            ''conversionEvents, baseEvents, and dateRange are required for calculate_cvr.''))"

subsection \<open>analyze_user_journey\<close>

definition funnelSteps :: "string list" where
  "funnelSteps =
     [''session_start'', ''view_item_list'', ''view_item'', ''add_to_cart'',
      ''begin_checkout'', ''purchase'']"

record journey_result =
  overallFunnel :: "int js_object"
  overallStepConversion :: "number js_object"
  segmentFunnels :: "int js_object js_object option"

text \<open>
  The first \<open>funnelSteps.forEach\<close>: the step's result goes into \<open>stepDataMap\<close>, and with
  a segment dimension its keys other than \<open>null\<close> are added to \<open>allSegmentValues\<close>. The
  state is the pair of the two; \<open>stepCountsResults\<close> has one entry for each step.
\<close>

definition collect_step ::
  "string option \<Rightarrow> (string \<times> counts) list \<times> string list \<Rightarrow> string \<times> counts
     \<Rightarrow> (string \<times> counts) list \<times> string list" where
  "collect_step segmentBy st sr =
     (case st of (stepDataMap, allSegmentValues) \<Rightarrow>
        (case sr of (step, res) \<Rightarrow>
           (AList.update step res stepDataMap,
            if \<not> missing segmentBy then
              foldl (\<lambda>vals key. case key of None \<Rightarrow> vals | Some v \<Rightarrow> set_add vals v)
                allSegmentValues (map fst res)
            else allSegmentValues)))"

text \<open>\<open>stepDataMap.get(step)?.get(key) ?? 0\<close>\<close>

definition step_count :: "(string \<times> counts) list \<Rightarrow> string \<Rightarrow> string option \<Rightarrow> int" where
  "step_count stepDataMap step key =
     (case map_of stepDataMap step of None \<Rightarrow> 0 | Some m \<Rightarrow> get_or_zero m key)"

text \<open>
  The second \<open>funnelSteps.forEach\<close>, over the index \<open>i\<close>; the state is \<open>overallFunnel\<close>,
  \<open>overallStepConversion\<close> and \<open>previousStepCount\<close>.
\<close>

definition overall_step ::
  "(string \<times> counts) list \<Rightarrow> int js_object \<times> number js_object \<times> int \<Rightarrow> nat
     \<Rightarrow> int js_object \<times> number js_object \<times> int" where
  "overall_step stepDataMap st i =
     (case st of (funnel, conversions, previousStepCount) \<Rightarrow>
        (let step = funnelSteps ! i;
             n = step_count stepDataMap step None
         in (AList.update step n funnel,
             (if i > 0 then
                (let prevStep = funnelSteps ! (i - 1);
                     conversionRate =
                       (if previousStepCount > 0
                        then toFixed2 (of_int n / of_int previousStepCount * 100) else 0)
                 in AList.update (prevStep @ ''_to_'' @ step) conversionRate conversions)
              else conversions),
             n)))"

text \<open>The funnel of one segment value: a count for every step.\<close>

definition segment_funnel :: "(string \<times> counts) list \<Rightarrow> string \<Rightarrow> int js_object" where
  "segment_funnel stepDataMap segmentValue =
     foldl (\<lambda>funnel step.
              AList.update step (step_count stepDataMap step (Some segmentValue)) funnel)
       [] funnelSteps"

text \<open>The merge of the step results into the journey.\<close>

definition journey :: "string option \<Rightarrow> counts list \<Rightarrow> journey_result" where
  "journey segmentBy stepCountsResults =
     (let (stepDataMap, allSegmentValues) =
            foldl (collect_step segmentBy) ([], []) (zip funnelSteps stepCountsResults);
          (funnel, conversions, previousStepCount) =
            foldl (overall_step stepDataMap) ([], [], 0) [0..<length funnelSteps]
      in \<lparr>overallFunnel = funnel, overallStepConversion = conversions,
          segmentFunnels =
            (if \<not> missing segmentBy then
               Some (foldl (\<lambda>obj segmentValue.
                              AList.update segmentValue
                                (segment_funnel stepDataMap segmentValue) obj)
                       [] allSegmentValues)
             else None)\<rparr>)"

text \<open>
  \<open>Promise.all\<close> over the requests of the steps: the results in step order, or an error
  (of the first step that fails, in step order).
\<close>

fun all_results :: "(mcp_error + 'a) list \<Rightarrow> mcp_error + 'a list" where
  "all_results [] = Inr []"
| "all_results (r # rs) =
     (case r of
        Inl e \<Rightarrow> Inl e
      | Inr x \<Rightarrow> (case all_results rs of Inl e \<Rightarrow> Inl e | Inr xs \<Rightarrow> Inr (x # xs)))"

definition analyze_user_journey ::
  "ga_client \<Rightarrow> string option \<Rightarrow> (string \<times> string) option \<Rightarrow> mcp_error + journey_result" where
  "analyze_user_journey client segmentBy dr_arg =
     (case dr_arg of
        None \<Rightarrow>
          Inl (McpError InvalidParams ''dateRange is required for analyze_user_journey.'')
      | Some dr \<Rightarrow>
          (case all_results
                  (map (\<lambda>step. getEventCount client dr [step] segmentBy) funnelSteps) of
             Inl e \<Rightarrow> Inl e
           | Inr stepCountsResults \<Rightarrow> Inr (journey segmentBy stepCountsResults)))"

subsection \<open>Conversion rates and the union of the segments\<close>

lemma set_set_add: "set (set_add st x) = insert x (set st)"
  by (auto simp: set_add_def)

lemma set_add_keys:
  "set (foldl (\<lambda>vals key. case key of None \<Rightarrow> vals | Some v \<Rightarrow> set_add vals v) vals ks) =
     set vals \<union> {v. Some v \<in> set ks}"
  by (induction ks arbitrary: vals) (auto simp: set_set_add split: option.splits)

lemma fst_collect_step:
  "fst (collect_step sb (m, vals) (step, res)) = AList.update step res m"
  by (simp add: collect_step_def)

lemma snd_collect_step:
  "\<not> missing sb \<Longrightarrow>
   set (snd (collect_step sb (m, vals) (step, res))) = set vals \<union> {v. Some v \<in> fst ` set res}"
  by (simp add: collect_step_def set_add_keys)

lemma snd_collect_step_none:
  "missing sb \<Longrightarrow> snd (collect_step sb (m, vals) (step, res)) = vals"
  by (simp add: collect_step_def)

lemma collect_fold_fst:
  "fst (foldl (collect_step sb) (m, vals) srs) =
     foldl (\<lambda>m' (step, res). AList.update step res m') m srs"
  by (induction srs arbitrary: m vals) (auto simp: collect_step_def)

lemma collect_fold_snd:
  "\<not> missing sb \<Longrightarrow>
   set (snd (foldl (collect_step sb) (m, vals) srs)) =
     set vals \<union> {v. \<exists>res \<in> snd ` set srs. Some v \<in> fst ` set res}"
proof (induction srs arbitrary: m vals)
  case Nil
  then show ?case by simp
next
  case (Cons sr srs)
  obtain step res where sr: "sr = (step, res)" by (cases sr)
  obtain m' vals' where c: "collect_step sb (m, vals) (step, res) = (m', vals')"
    by (cases "collect_step sb (m, vals) (step, res)")
  have v: "set vals' = set vals \<union> {v. Some v \<in> fst ` set res}"
    using snd_collect_step [OF Cons.prems, of m vals step res] c by simp
  show ?case
    using Cons.IH [OF Cons.prems, of m' vals'] by (auto simp: sr c v)
qed

lemma stepDataMap_six:
  "fst (foldl (collect_step sb) ([], []) (zip funnelSteps [r0, r1, r2, r3, r4, r5])) =
     [(''session_start'', r0), (''view_item_list'', r1), (''view_item'', r2),
      (''add_to_cart'', r3), (''begin_checkout'', r4), (''purchase'', r5)]"
  by (subst collect_fold_fst) (simp add: funnelSteps_def)










lemma get_or_zero_absent:
  assumes "k \<notin> fst ` set m"
  shows "get_or_zero m k = 0"
proof -
  have "map_of m k = None"
    using assms by (simp add: map_of_eq_None_iff)
  then show ?thesis
    by (simp add: get_or_zero_def)
qed

lemma update_fold_keys:
  "fst ` set (foldl (\<lambda>obj v. AList.update v (g v) obj) obj0 vs) = fst ` set obj0 \<union> set vs"
  by (induction vs arbitrary: obj0) (auto simp: dom_update)

lemma update_fold_map_of:
  "map_of (foldl (\<lambda>obj v. AList.update v (g v) obj) obj0 vs) v =
     (if v \<in> set vs then Some (g v) else map_of obj0 v)"
  by (induction vs arbitrary: obj0) (auto simp: update_conv')

lemma segment_funnel_six:
  "segment_funnel
     [(''session_start'', r0), (''view_item_list'', r1), (''view_item'', r2),
      (''add_to_cart'', r3), (''begin_checkout'', r4), (''purchase'', r5)] v =
   [(''session_start'', get_or_zero r0 (Some v)), (''view_item_list'', get_or_zero r1 (Some v)),
    (''view_item'', get_or_zero r2 (Some v)), (''add_to_cart'', get_or_zero r3 (Some v)),
    (''begin_checkout'', get_or_zero r4 (Some v)), (''purchase'', get_or_zero r5 (Some v))]"
  by (simp add: segment_funnel_def funnelSteps_def step_count_def)

lemma journey_segmentFunnels:
  "\<not> missing sb \<Longrightarrow>
   segmentFunnels (journey sb rs) =
     Some (foldl (\<lambda>obj v.
                    AList.update v
                      (segment_funnel
                         (fst (foldl (collect_step sb) ([], []) (zip funnelSteps rs))) v) obj)
             [] (snd (foldl (collect_step sb) ([], []) (zip funnelSteps rs))))"
  by (simp add: journey_def split_def Let_def)

lemma journey_segmentFunnels_none:
  "missing sb \<Longrightarrow> segmentFunnels (journey sb rs) = None"
  by (simp add: journey_def split_def Let_def)

lemma allSegmentValues_six:
  assumes "\<not> missing sb"
  shows "set (snd (foldl (collect_step sb) ([], []) (zip funnelSteps [r0, r1, r2, r3, r4, r5]))) =
     {v. Some v \<in> fst ` (set r0 \<union> set r1 \<union> set r2 \<union> set r3 \<union> set r4 \<union> set r5)}"
proof -
  have z: "snd ` set (zip funnelSteps [r0, r1, r2, r3, r4, r5]) = {r0, r1, r2, r3, r4, r5}"
    by (simp add: funnelSteps_def)
  show ?thesis
    unfolding collect_fold_snd [OF assms] z by auto
qed

lemma set_new_Set: "set (new_Set xs) = set xs"
proof -
  have "\<And>st. set (foldl set_add st xs) = set st \<union> set xs"
    by (induction xs) (auto simp: set_set_add)
  then show ?thesis
    by (simp add: new_Set_def)
qed

lemma cvr_fold_keys:
  "fst ` set (foldl (cvr_segment_step cc bc) segs ks) = fst ` set segs \<union> {v. Some v \<in> set ks}"
  by (induction ks arbitrary: segs)
    (auto simp: cvr_segment_step_def dom_update Let_def split: option.splits)

lemma cvr_fold_map_of:
  "map_of (foldl (cvr_segment_step cc bc) segs ks) v =
     (if Some v \<in> set ks
      then Some \<lparr>conversionEvents = get_or_zero cc (Some v),
                 baseEvents = get_or_zero bc (Some v),
                 cvr = rate_percent (get_or_zero cc (Some v)) (get_or_zero bc (Some v))\<rparr>
      else map_of segs v)"
  by (induction ks arbitrary: segs)
    (auto simp: cvr_segment_step_def update_conv' Let_def split: option.splits)

text \<open>
  C4: with a segment dimension, the keys of \<open>segmentFunnels\<close> are exactly the segment
  values that occur in the result of at least one of the six step queries, and the
  funnel of each of them lists every step, with the count of that value in the step's
  result, which is 0 when the step has no row for it. In calculate_cvr the keys of
  \<open>segments\<close> are exactly the values that occur in the conversion counts or the base
  counts, each with both counts, 0 where absent.
\<close>

theorem segment_union:
  assumes "\<not> missing sb"
  shows "\<exists>sf sg.
      segmentFunnels (journey sb [r0, r1, r2, r3, r4, r5]) = Some sf
      \<and> fst ` set sf =
          {v. Some v \<in> fst ` (set r0 \<union> set r1 \<union> set r2 \<union> set r3 \<union> set r4 \<union> set r5)}
      \<and> (\<forall>v \<in> fst ` set sf.
            map_of sf v =
              Some [(''session_start'', get_or_zero r0 (Some v)),
                    (''view_item_list'', get_or_zero r1 (Some v)),
                    (''view_item'', get_or_zero r2 (Some v)),
                    (''add_to_cart'', get_or_zero r3 (Some v)),
                    (''begin_checkout'', get_or_zero r4 (Some v)),
                    (''purchase'', get_or_zero r5 (Some v))])
      \<and> segments (cvr_results sb cc bc) = Some sg
      \<and> fst ` set sg = {v. Some v \<in> fst ` (set cc \<union> set bc)}
      \<and> (\<forall>v \<in> fst ` set sg.
            map_of sg v =
              Some \<lparr>conversionEvents = get_or_zero cc (Some v),
                    baseEvents = get_or_zero bc (Some v),
                    cvr = rate_percent (get_or_zero cc (Some v)) (get_or_zero bc (Some v))\<rparr>)
      \<and> (\<forall>m :: counts. \<forall>v. Some v \<notin> fst ` set m \<longrightarrow> get_or_zero m (Some v) = 0)"
proof -
  let ?C = "foldl (collect_step sb) ([], []) (zip funnelSteps [r0, r1, r2, r3, r4, r5])"
  let ?sf = "foldl (\<lambda>obj v. AList.update v (segment_funnel (fst ?C) v) obj) [] (snd ?C)"
  let ?ks = "filter (\<lambda>k. k \<noteq> None) (new_Set (map fst cc @ map fst bc))"
  let ?sg = "foldl (cvr_segment_step cc bc) [] ?ks"
  have 1: "segmentFunnels (journey sb [r0, r1, r2, r3, r4, r5]) = Some ?sf"
    by (rule journey_segmentFunnels [OF assms])
  have 2: "fst ` set ?sf =
      {v. Some v \<in> fst ` (set r0 \<union> set r1 \<union> set r2 \<union> set r3 \<union> set r4 \<union> set r5)}"
    unfolding update_fold_keys allSegmentValues_six [OF assms] by simp
  have 3: "\<forall>v \<in> fst ` set ?sf.
      map_of ?sf v =
        Some [(''session_start'', get_or_zero r0 (Some v)),
              (''view_item_list'', get_or_zero r1 (Some v)),
              (''view_item'', get_or_zero r2 (Some v)),
              (''add_to_cart'', get_or_zero r3 (Some v)),
              (''begin_checkout'', get_or_zero r4 (Some v)),
              (''purchase'', get_or_zero r5 (Some v))]"
    unfolding update_fold_keys update_fold_map_of stepDataMap_six segment_funnel_six
    by simp
  have 4: "segments (cvr_results sb cc bc) = Some ?sg"
    using assms by (simp add: cvr_results_def Let_def)
  have ks: "\<And>v. Some v \<in> set ?ks \<longleftrightarrow> Some v \<in> fst ` (set cc \<union> set bc)"
    by (auto simp: set_new_Set)
  have 5: "fst ` set ?sg = {v. Some v \<in> fst ` (set cc \<union> set bc)}"
    unfolding cvr_fold_keys using ks by simp
  have 6: "\<forall>v \<in> fst ` set ?sg.
      map_of ?sg v =
        Some \<lparr>conversionEvents = get_or_zero cc (Some v),
              baseEvents = get_or_zero bc (Some v),
              cvr = rate_percent (get_or_zero cc (Some v)) (get_or_zero bc (Some v))\<rparr>"
    unfolding cvr_fold_keys cvr_fold_map_of by simp
  have 7: "\<forall>m :: counts. \<forall>v. Some v \<notin> fst ` set m \<longrightarrow> get_or_zero m (Some v) = 0"
    by (simp add: get_or_zero_absent)
  from 1 2 3 4 5 6 7 show ?thesis by blast
qed

definition mobile_counts :: counts where
  "mobile_counts = [(Some ''mobile'', 10)]"

lemma mobile_segmentFunnels:
  "segmentFunnels (journey (Some ''deviceCategory'') [mobile_counts, [], [], [], [], []]) =
     Some [(''mobile'',
            [(''session_start'', 10), (''view_item_list'', 0), (''view_item'', 0),
             (''add_to_cart'', 0), (''begin_checkout'', 0), (''purchase'', 0)])]"
proof -
  have h: "\<not> missing (Some ''deviceCategory'')"
    by (simp add: missing_def)
  have v: "snd (foldl (collect_step (Some ''deviceCategory'')) ([], [])
      (zip funnelSteps [mobile_counts, [], [], [], [], []])) = [''mobile'']"
    by (simp add: funnelSteps_def collect_step_def missing_def mobile_counts_def set_add_def)
  show ?thesis
    unfolding journey_segmentFunnels [OF h] stepDataMap_six v
    by (simp add: segment_funnel_six get_or_zero_def mobile_counts_def)
qed

lemma mobile_segments:
  "segments (cvr_results (Some ''deviceCategory'') [] mobile_counts) =
     Some [(''mobile'', \<lparr>conversionEvents = 0, baseEvents = 10, cvr = 0\<rparr>)]"
  by (simp add: cvr_results_def missing_def mobile_counts_def new_Set_def set_add_def
      cvr_segment_step_def get_or_zero_def rate_percent_def toFixed2_def Let_def floor_eq_iff)

theorem segment_union_witness:
  "\<not> missing (Some ''deviceCategory'')
   \<and> segmentFunnels (journey (Some ''deviceCategory'') [mobile_counts, [], [], [], [], []]) =
       Some [(''mobile'',
              [(''session_start'', 10), (''view_item_list'', 0), (''view_item'', 0),
               (''add_to_cart'', 0), (''begin_checkout'', 0), (''purchase'', 0)])]
   \<and> segments (cvr_results (Some ''deviceCategory'') [] mobile_counts) =
       Some [(''mobile'', \<lparr>conversionEvents = 0, baseEvents = 10, cvr = 0\<rparr>)]"
proof -
  have h: "\<not> missing (Some ''deviceCategory'')"
    by (simp add: missing_def)
  from segment_union [OF h, of mobile_counts "[]" "[]" "[]" "[]" "[]" "[]" mobile_counts]
  have "\<exists>sf. segmentFunnels
      (journey (Some ''deviceCategory'') [mobile_counts, [], [], [], [], []]) = Some sf"
    by (elim exE conjE) (rule exI, assumption)
  with mobile_segmentFunnels mobile_segments h show ?thesis by simp
qed

subsection \<open>From the tool bodies to the merges\<close>

text \<open>
  A successful analyze_user_journey is the merge of the results of its six step queries,
  and a successful calculate_cvr is the computation on the results of its two queries.
\<close>

lemma all_results_six:
  assumes "all_results [a0, a1, a2, a3, a4, a5] = Inr rs"
  shows "\<exists>r0 r1 r2 r3 r4 r5.
      rs = [r0, r1, r2, r3, r4, r5] \<and> a0 = Inr r0 \<and> a1 = Inr r1 \<and> a2 = Inr r2
      \<and> a3 = Inr r3 \<and> a4 = Inr r4 \<and> a5 = Inr r5"
  using assms by (auto split: sum.splits)

lemma analyze_user_journey_results:
  assumes "analyze_user_journey client sb (Some dr) = Inr res"
  shows "\<exists>r0 r1 r2 r3 r4 r5.
      res = journey sb [r0, r1, r2, r3, r4, r5]
      \<and> getEventCount client dr [''session_start''] sb = Inr r0
      \<and> getEventCount client dr [''view_item_list''] sb = Inr r1
      \<and> getEventCount client dr [''view_item''] sb = Inr r2
      \<and> getEventCount client dr [''add_to_cart''] sb = Inr r3
      \<and> getEventCount client dr [''begin_checkout''] sb = Inr r4
      \<and> getEventCount client dr [''purchase''] sb = Inr r5"
proof -
  from assms obtain rs where
    a: "all_results (map (\<lambda>step. getEventCount client dr [step] sb) funnelSteps) = Inr rs"
    and r: "res = journey sb rs"
    by (auto simp: analyze_user_journey_def split: sum.splits)
  from a have "all_results
      [getEventCount client dr [''session_start''] sb,
       getEventCount client dr [''view_item_list''] sb,
       getEventCount client dr [''view_item''] sb,
       getEventCount client dr [''add_to_cart''] sb,
       getEventCount client dr [''begin_checkout''] sb,
       getEventCount client dr [''purchase''] sb] = Inr rs"
    by (simp add: funnelSteps_def)
  from all_results_six [OF this] r show ?thesis
    by blast
qed

lemma calculate_cvr_results:
  assumes "calculate_cvr client args = Inr res"
  shows "\<exists>ce be dr cc bc.
      arg_conversionEvents args = Some ce \<and> arg_baseEvents args = Some be
      \<and> arg_dateRange args = Some dr
      \<and> getEventCount client dr ce (arg_segmentBy args) = Inr cc
      \<and> getEventCount client dr be (arg_segmentBy args) = Inr bc
      \<and> res = cvr_results (arg_segmentBy args) cc bc"
  using assms
  by (auto simp: calculate_cvr_def split: option.splits sum.splits)

lemma segmented_fold_keys:
  "fst ` set (foldl (\<lambda>results row. AList.update (Some (f row)) (g row) results) obj rs) =
     fst ` set obj \<union> (\<lambda>row. Some (f row)) ` set rs"
  by (induction rs arbitrary: obj) (auto simp: dom_update)

text \<open>
  With a segment dimension \<open>getEventCount\<close> stores no total under \<open>null\<close>, so the overall
  counts that the journey and the conversion rate read are 0.
\<close>

lemma getEventCount_segmented:
  assumes "\<not> missing sb" and "getEventCount client dr names sb = Inr m"
  shows "get_or_zero m None = 0"
proof -
  have "None \<notin> fst ` set m"
  proof (cases "client \<lparr>dateRange = dr, dimensions = [or_else sb []], eventNames = names\<rparr>")
    case (Inl msg)
    then show ?thesis
      using assms by (simp add: getEventCount_def)
  next
    case (Inr rows)
    with assms have m: "m =
        (case rows of
           None \<Rightarrow> []
         | Some rs \<Rightarrow>
             foldl (\<lambda>results row.
                      AList.update
                        (Some (case dimensionValue row of None \<Rightarrow> ''unknown'' | Some v \<Rightarrow> v))
                        (row_count row) results)
               [] rs)"
      by (simp add: getEventCount_def)
    have "fst ` set m \<subseteq> range Some"
      unfolding m by (cases rows) (simp_all add: segmented_fold_keys image_subset_iff)
    then show ?thesis
      by auto
  qed
  then show ?thesis
    by (rule get_or_zero_absent)
qed

end
